theory Spec2Isabelle
  imports Complex_Main "HOL-Library.AList"
begin

section \<open>Python values\<close>

text \<open>
  The agents are Python programs that pass JSON-shaped values around: dictionaries are
  association lists in insertion order, \<open>None\<close> is \<open>JNull\<close>. Numbers that
  \<open>json.loads\<close> reads as \<open>int\<close> are \<open>JInt\<close>; Python floats are idealised as
  rationals (\<open>JFloat\<close>), and so are the readings of \<open>time.time()\<close>.
\<close>

datatype json =
    JNull
  | JBool bool
  | JInt int
  | JFloat rat
  | JStr string
  | JArr "json list"
  | JObj "(string \<times> json) list"

text \<open>
  Exceptions are values: a call either returns or raises. An exception carries its class
  name (\<open>type(e).__name__\<close>) and its text (\<open>str(e)\<close>). The text of exceptions that
  the program only logs is left empty.
\<close>

datatype exn = Exn (exn_name: string) (exn_text: string)

definition AttributeError :: exn where
  "AttributeError = Exn ''AttributeError'' []"

definition TypeError :: exn where
  "TypeError = Exn ''TypeError'' []"

definition KeyError :: exn where
  "KeyError = Exn ''KeyError'' []"

datatype 'a result = Returned 'a | Raised exn

definition bind :: "'a result \<Rightarrow> ('a \<Rightarrow> 'b result) \<Rightarrow> 'b result" where
  "bind m k = (case m of Raised e \<Rightarrow> Raised e | Returned x \<Rightarrow> k x)"

text \<open>Python's \<open>int(x)\<close> on a float truncates towards zero.\<close>

definition py_int :: "rat \<Rightarrow> int" where
  "py_int x = (if 0 \<le> x then \<lfloor>x\<rfloor> else \<lceil>x\<rceil>)"

text \<open>Decimal rendering of integers, as an f-string does it.\<close>

function str_nat :: "nat \<Rightarrow> string" where
  "str_nat n =
     (if n < 10 then [char_of (48 + n)]
      else str_nat (n div 10) @ [char_of (48 + n mod 10)])"
  by pat_completeness auto
termination
  by (relation "measure id") auto

definition str_int :: "int \<Rightarrow> string" where
  "str_int i = (if i < 0 then CHR ''-'' # str_nat (nat (- i)) else str_nat (nat i))"

section \<open>The socket client (\<open>ipc/socket_client.py\<close>)\<close>

text \<open>
  \<open>IPCMessage\<close>. The \<open>timestamp\<close> field, a wall-clock reading that no property
  below looks at, is left out of the record.
\<close>

record ipc_message =
  msg_id :: string
  msg_type :: string
  msg_agent :: "string option"
  msg_data :: "json option"

text \<open>
  The connected Unix socket. \<open>sent\<close> is what has been written to it; a \<open>broken\<close>
  socket raises \<open>OSError\<close> on \<open>send\<close>.
\<close>

record sock =
  broken :: bool
  sent :: "ipc_message list"

text \<open>
  The payload of an inbound task message (spec section 3). A key that is absent from the
  dictionary is \<open>None\<close>; \<open>config\<close> carries the per-task overrides that the two
  agents read.
\<close>

record task_config =
  tc_timeout_seconds :: "int option"
  tc_complexity_threshold :: "int option"
  tc_duplication_threshold :: "rat option"
  tc_scan_complexity :: "bool option"
  tc_scan_duplication :: "bool option"
  tc_scan_secrets :: "bool option"
  tc_scan_dependencies :: "bool option"
  tc_semgrep_rules :: "string list option"
  tc_gitleaks_enabled :: "bool option"
  tc_osv_scanner_enabled :: "bool option"

record task_data =
  scope :: "string list option"
  task_context :: "json option"
  output_file :: "string option"
  config :: "task_config option"
  mode :: "string option"
  timeout_seconds :: "int option"

record task_message =
  task_id :: string
  task_payload :: "task_data option"

text \<open>An entry of \<open>active_tasks\<close>: \<open>{"task_data", "start_time", "timeout"}\<close>.\<close>

record active_task =
  at_task_data :: task_data
  at_start_time :: rat
  at_timeout :: int

text \<open>
  The fields of \<open>SocketClient\<close> that the task life cycle and the reconnect loop use.
  \<open>active_tasks\<close> is a Python dict: an association list in insertion order.
\<close>

record client =
  agent_name :: string
  socket :: "sock option"
  is_connected :: bool
  is_running :: bool
  active_tasks :: "(string \<times> active_task) list"
  heartbeat_interval :: nat
  reconnect_interval :: nat
  max_reconnect_attempts :: nat
  max_active_tasks :: nat

text \<open>\<open>SocketClient.__init__\<close>.\<close>

definition init_client :: "string \<Rightarrow> client" where
  "init_client name =
     \<lparr> agent_name = name, socket = None, is_connected = False, is_running = False,
       active_tasks = [], heartbeat_interval = 30, reconnect_interval = 10,
       max_reconnect_attempts = 30, max_active_tasks = 10 \<rparr>"

definition dict_has :: "('k \<times> 'v) list \<Rightarrow> 'k \<Rightarrow> bool" where
  "dict_has d k = (k \<in> set (map fst d))"

text \<open>
  \<open>send_message\<close>. When the client is not connected it returns \<open>False\<close>. The
  handler of the \<open>try\<close> names \<open>json.JSONEncodeError\<close>, which the \<open>json\<close> module does
  not have: when \<open>socket.send\<close> raises, evaluating the \<open>except\<close> clause raises
  \<open>AttributeError\<close>, so the handler body (which would clear \<open>is_connected\<close>) never
  runs and the exception leaves \<open>send_message\<close>.
\<close>

definition fill_agent :: "'a client_scheme \<Rightarrow> ipc_message \<Rightarrow> ipc_message" where
  "fill_agent st message =
     (if msg_agent message = None \<or> msg_agent message = Some ''''
      then message\<lparr>msg_agent := Some (agent_name st)\<rparr> else message)"

definition send_message ::
  "'a client_scheme \<Rightarrow> ipc_message \<Rightarrow> bool result \<times> 'a client_scheme" where
  "send_message st message =
     (if \<not> is_connected st then (Returned False, st)
      else case socket st of
        None \<Rightarrow> (Returned False, st)
      | Some s \<Rightarrow>
          if broken s then (Raised AttributeError, st)
          else (Returned True,
                st\<lparr>socket := Some (s\<lparr>sent := sent s @ [fill_agent st message]\<rparr>)\<rparr>))"

text \<open>\<open>send_task_response\<close>: build the message, drop the entry, then send.\<close>

definition task_response ::
  "'a client_scheme \<Rightarrow> string \<Rightarrow> string \<Rightarrow> json \<Rightarrow> int option \<Rightarrow> ipc_message" where
  "task_response st tid status results duration_ms =
     \<lparr> msg_id = tid, msg_type = ''task'', msg_agent = None,
       msg_data = Some (JObj
         [(''status'', JStr status),
          (''results'', results),
          (''duration_ms'', case duration_ms of None \<Rightarrow> JNull | Some d \<Rightarrow> JInt d),
          (''agent'', JStr (agent_name st))]) \<rparr>"

definition remove_active :: "'a client_scheme \<Rightarrow> string \<Rightarrow> 'a client_scheme" where
  "remove_active st tid =
     (if dict_has (active_tasks st) tid
      then st\<lparr>active_tasks := AList.delete tid (active_tasks st)\<rparr> else st)"

definition send_task_response ::
  "'a client_scheme \<Rightarrow> string \<Rightarrow> string \<Rightarrow> json \<Rightarrow> int option
     \<Rightarrow> bool result \<times> 'a client_scheme" where
  "send_task_response st tid status results duration_ms =
     (let message = task_response st tid status results duration_ms
      in send_message (remove_active st tid) message)"





text \<open>
  \<open>_handle_task\<close>. A message whose \<open>data\<close> is missing or is the empty dictionary is
  dropped. Then the overload check, then the entry is stored, then the subclass's
  \<open>handle_task\<close> runs to completion (\<open>asyncio.run\<close>); an exception that escapes it is
  answered with \<open>failed\<close>. \<open>now\<close> is the reading of \<open>time.time()\<close> stored as
  \<open>start_time\<close>.
\<close>

definition empty_dict :: "task_data \<Rightarrow> bool" where
  "empty_dict td =
     (scope td = None \<and> task_context td = None \<and> output_file td = None \<and> config td = None
      \<and> mode td = None \<and> timeout_seconds td = None)"

definition overload_results :: "'a client_scheme \<Rightarrow> json" where
  "overload_results st =
     JObj [(''error'', JStr (''Agent overloaded: '' @ str_nat (length (active_tasks st)) @ ''/''
                              @ str_nat (max_active_tasks st) @ '' tasks running''))]"

definition store_active :: "'a client_scheme \<Rightarrow> rat \<Rightarrow> string \<Rightarrow> task_data \<Rightarrow> 'a client_scheme" where
  "store_active st now tid td =
     st\<lparr>active_tasks :=
          AList.update tid
            \<lparr> at_task_data = td, at_start_time = now,
              at_timeout = (case timeout_seconds td of None \<Rightarrow> 300 | Some t \<Rightarrow> t) \<rparr>
            (active_tasks st)\<rparr>"

definition discard :: "'b result \<times> 's \<Rightarrow> unit result \<times> 's" where
  "discard p = (case p of (Raised e, s) \<Rightarrow> (Raised e, s) | (Returned _, s) \<Rightarrow> (Returned (), s))"

definition answer_failure ::
  "string \<Rightarrow> unit result \<times> 'a client_scheme \<Rightarrow> unit result \<times> 'a client_scheme" where
  "answer_failure tid p =
     (case p of
        (Raised e, st') \<Rightarrow>
          discard (send_task_response st' tid ''failed'' (JObj [(''error'', JStr (exn_text e))]) None)
      | (Returned _, st') \<Rightarrow> (Returned (), st'))"

definition handle_task_message ::
  "('a client_scheme \<Rightarrow> string \<Rightarrow> task_data \<Rightarrow> unit result \<times> 'a client_scheme)
     \<Rightarrow> 'a client_scheme \<Rightarrow> rat \<Rightarrow> task_message \<Rightarrow> unit result \<times> 'a client_scheme" where
  "handle_task_message handle_task st now message =
     (case task_payload message of
        None \<Rightarrow> (Returned (), st)
      | Some td \<Rightarrow>
          if empty_dict td then (Returned (), st)
          else if length (active_tasks st) \<ge> max_active_tasks st then
            discard (send_task_response st (task_id message) ''rejected'' (overload_results st) None)
          else
            answer_failure (task_id message)
              (handle_task (store_active st now (task_id message) td) (task_id message) td))"

text \<open>
  \<open>connect\<close>. \<open>ok\<close> says whether \<open>socket.connect\<close> succeeds. On success a fresh
  socket is installed and the registration event is sent on it (its \<open>pid\<close> and
  \<open>capabilities\<close> entries are left out).
\<close>

definition registration :: "'a client_scheme \<Rightarrow> ipc_message" where
  "registration st =
     \<lparr> msg_id = ''registration'', msg_type = ''event'', msg_agent = None,
       msg_data = Some (JObj [(''agent'', JStr (agent_name st)), (''version'', JStr ''1.0.0'')]) \<rparr>"

definition connect :: "'a client_scheme \<Rightarrow> bool \<Rightarrow> bool \<times> 'a client_scheme" where
  "connect st ok =
     (if ok then
        (let st1 = st\<lparr>socket := Some \<lparr>broken = False, sent = []\<rparr>, is_connected := True\<rparr>
         in (True, snd (send_message st1 (registration st1))))
      else (False, st\<lparr>socket := Some \<lparr>broken = True, sent = []\<rparr>, is_connected := False\<rparr>))"

text \<open>
  \<open>_main_loop\<close>. The loop runs beside the heartbeat and listen threads, so each
  iteration gets its surroundings as an input: whether a \<open>connect()\<close> made in this
  iteration succeeds, and whether another thread clears \<open>is_connected\<close> or
  \<open>is_running\<close> while the iteration sleeps. The function returns whether the loop
  has ended, the list of the \<open>time.sleep\<close> arguments in order, the local counter
  \<open>reconnect_attempts\<close> and the client. Running out of inputs is the end of the
  observation, not of the loop.
\<close>

record loop_env =
  connect_ok :: bool
  dropped :: bool
  stopped :: bool

definition during_sleep :: "loop_env \<Rightarrow> 'a client_scheme \<Rightarrow> 'a client_scheme" where
  "during_sleep e st =
     st\<lparr>is_connected := is_connected st \<and> \<not> dropped e,
        is_running := is_running st \<and> \<not> stopped e\<rparr>"

fun main_loop ::
  "'a client_scheme \<Rightarrow> nat \<Rightarrow> nat list \<Rightarrow> loop_env list
     \<Rightarrow> bool \<times> nat list \<times> nat \<times> 'a client_scheme" where
  "main_loop st reconnect_attempts slept [] = (False, slept, reconnect_attempts, st)"
| "main_loop st reconnect_attempts slept (e # es) =
     (if \<not> is_running st then (True, slept, reconnect_attempts, st)
      else if \<not> is_connected st then
        (if reconnect_attempts \<ge> max_reconnect_attempts st
         then (True, slept, reconnect_attempts, st)
         else
           (let current_interval = min (reconnect_interval st * 2 ^ reconnect_attempts) 60
            in case connect st (connect_ok e) of
                 (True, st1) \<Rightarrow> main_loop (during_sleep e st1) 0 (slept @ [1]) es
               | (False, st1) \<Rightarrow>
                   main_loop (during_sleep e st1) (reconnect_attempts + 1)
                     (slept @ [current_interval]) es))
      else main_loop (during_sleep e st) reconnect_attempts (slept @ [1]) es)"

section \<open>Error resilience shared by both agents\<close>

text \<open>
  \<open>QualityAgent.__init__\<close> and \<open>SecurityAgent.__init__\<close> add the same four fields to the
  socket client, and both \<open>handle_task\<close> methods open with the same check on them.
\<close>

record agent = client +
  consecutive_errors :: nat
  max_consecutive_errors :: nat
  last_successful_run :: rat
  error_threshold_cooldown :: int

definition time_since_last_success :: "'a agent_scheme \<Rightarrow> rat \<Rightarrow> rat" where
  "time_since_last_success st now = now - last_successful_run st"

definition in_cooldown :: "'a agent_scheme \<Rightarrow> rat \<Rightarrow> bool" where
  "in_cooldown st now =
     (consecutive_errors st \<ge> max_consecutive_errors st
      \<and> time_since_last_success st now < of_int (error_threshold_cooldown st))"

definition cooldown_remaining :: "'a agent_scheme \<Rightarrow> rat \<Rightarrow> int" where
  "cooldown_remaining st now =
     py_int (of_int (error_threshold_cooldown st) - time_since_last_success st now)"

definition cooldown_results :: "'a agent_scheme \<Rightarrow> rat \<Rightarrow> json" where
  "cooldown_results st now =
     JObj [(''error'', JStr (''Agent in error state: too many consecutive failures (''
                              @ str_nat (consecutive_errors st) @ '')'')),
           (''cooldown_remaining'', JInt (cooldown_remaining st now))]"

text \<open>Readings of \<open>time.time()\<close> made by one run of \<open>handle_task\<close>, in program order.\<close>

record clock =
  t_gate :: rat
  t_start :: rat
  t_end :: rat
  t_success :: rat

definition duration_ms :: "clock \<Rightarrow> int" where
  "duration_ms c = py_int ((t_end c - t_start c) * 1000)"

section \<open>The quality agent (\<open>src/quality_agent.py\<close>)\<close>

record quality_config =
  qc_timeout_seconds :: int
  max_file_size_mb :: nat
  scan_complexity :: bool
  scan_duplication :: bool
  complexity_threshold :: int
  duplication_threshold :: rat
  ruff_enabled :: bool
  eslint_enabled :: bool
  lizard_enabled :: bool
  yaml_syntax_enabled :: bool
  typescript_syntax_enabled :: bool
  analysis_mode :: string

definition default_quality_config :: quality_config where
  "default_quality_config =
     \<lparr> qc_timeout_seconds = 45, max_file_size_mb = 5, scan_complexity = True,
       scan_duplication = True, complexity_threshold = 10, duplication_threshold = 8 / 10,
       ruff_enabled = True, eslint_enabled = True, lizard_enabled = True,
       yaml_syntax_enabled = True, typescript_syntax_enabled = True,
       analysis_mode = ''standard'' \<rparr>"

text \<open>
  \<open>QualityFinding\<close>. The dataclass does not check its field types: what a parser copies
  out of a tool's JSON stays a JSON value. \<open>severity\<close> is always a Python string.
\<close>

record quality_finding =
  tool :: json
  rule_id :: json
  message :: json
  severity :: string
  file_path :: json
  line_number :: json
  column_number :: json
  end_line_number :: json
  end_column_number :: json
  category :: "string option"
  score :: json
  fix_suggestion :: json
  metadata :: json

text \<open>\<open>QaIssue\<close> of \<open>plugins/base.py\<close>; \<open>__post_init__\<close> has replaced a missing \<open>data\<close> by \<open>{}\<close>.\<close>

record qa_issue =
  qi_file :: string
  qi_rule_id :: string
  qi_message :: string
  qi_severity :: string
  qi_start_line :: int
  qi_start_column :: "int option"
  qi_end_line :: "int option"
  qi_end_column :: "int option"
  qi_data :: "(string \<times> json) list"

definition opt_int :: "int option \<Rightarrow> json" where
  "opt_int x = (case x of None \<Rightarrow> JNull | Some i \<Rightarrow> JInt i)"

definition dict_get :: "(string \<times> json) list \<Rightarrow> string \<Rightarrow> json \<Rightarrow> json" where
  "dict_get d k dflt = (case map_of d k of None \<Rightarrow> dflt | Some v \<Rightarrow> v)"

definition dict_get_str :: "(string \<times> string) list \<Rightarrow> string \<Rightarrow> string \<Rightarrow> string" where
  "dict_get_str d k dflt = (case map_of d k of None \<Rightarrow> dflt | Some v \<Rightarrow> v)"

definition convert_plugin_issue :: "qa_issue \<Rightarrow> quality_finding" where
  "convert_plugin_issue issue =
     \<lparr> tool = (if qi_data issue \<noteq> [] then dict_get (qi_data issue) ''plugin'' (JStr ''unknown'')
               else JStr ''unknown''),
       rule_id = JStr (qi_rule_id issue),
       message = JStr (qi_message issue),
       severity = qi_severity issue,
       file_path = JStr (qi_file issue),
       line_number = JInt (qi_start_line issue),
       column_number = opt_int (qi_start_column issue),
       end_line_number = opt_int (qi_end_line issue),
       end_column_number = opt_int (qi_end_column issue),
       category = Some ''syntax'',
       score = JNull,
       fix_suggestion = (if qi_data issue \<noteq> [] then dict_get (qi_data issue) ''suggestion'' JNull
                         else JNull),
       metadata = JObj (qi_data issue) \<rparr>"

definition convert_plugin_issues :: "qa_issue list \<Rightarrow> quality_finding list" where
  "convert_plugin_issues plugin_issues = map convert_plugin_issue plugin_issues"

text \<open>
  \<open>_get_severity_breakdown\<close>: a counter is bumped only when the severity is already a key
  of the dictionary.
\<close>

definition bump :: "(string \<times> nat) list \<Rightarrow> string \<Rightarrow> (string \<times> nat) list" where
  "bump breakdown k =
     (case map_of breakdown k of
        None \<Rightarrow> breakdown
      | Some n \<Rightarrow> AList.update k (n + 1) breakdown)"

definition get_severity_breakdown :: "quality_finding list \<Rightarrow> (string \<times> nat) list" where
  "get_severity_breakdown findings =
     fold (\<lambda>finding breakdown. bump breakdown (severity finding)) findings
       [(''error'', 0), (''warning'', 0), (''info'', 0)]"

text \<open>\<open>_get_category_breakdown\<close>: here every category gets a key.\<close>

definition get_category_breakdown :: "quality_finding list \<Rightarrow> (string \<times> nat) list" where
  "get_category_breakdown findings =
     fold (\<lambda>finding breakdown.
             let c = (case category finding of None \<Rightarrow> ''other''
                      | Some c \<Rightarrow> if c = [] then ''other'' else c)
             in AList.update c ((case map_of breakdown c of None \<Rightarrow> 0 | Some n \<Rightarrow> n) + 1) breakdown)
       findings []"

definition counts_json :: "(string \<times> nat) list \<Rightarrow> json" where
  "counts_json d = JObj (map (\<lambda>(k, n). (k, JInt (int n))) d)"

fun join :: "string \<Rightarrow> string list \<Rightarrow> string" where
  "join sep [] = []"
| "join sep [x] = x"
| "join sep (x # y # ys) = x @ sep @ join sep (y # ys)"

definition generate_summary :: "quality_finding list \<Rightarrow> string list \<Rightarrow> string" where
  "generate_summary findings tools_used =
     (let findings_count = length findings; tools = join '', '' tools_used in
      if findings_count = 0 then ''No quality issues found. Analyzed with: '' @ tools
      else if findings_count \<le> 5 then
        ''Found '' @ str_nat findings_count @ '' minor quality issues. Tools: '' @ tools
      else if findings_count \<le> 15 then
        ''Found '' @ str_nat findings_count
          @ '' quality issues. Some attention recommended. Tools: '' @ tools
      else ''Found '' @ str_nat findings_count
          @ '' quality issues. Significant refactoring may be needed. Tools: '' @ tools)"

text \<open>
  The file system as the agents see it. \<open>path_suffix\<close> and \<open>path_str\<close> stand for
  \<open>pathlib\<close>'s \<open>Path(p).suffix\<close> and \<open>str(Path(p))\<close>; \<open>fs_walk d\<close> lists the
  joined paths of the files that \<open>os.walk(d)\<close> visits.
\<close>

record file_system =
  fs_cwd :: string
  fs_exists :: "string \<Rightarrow> bool"
  fs_isfile :: "string \<Rightarrow> bool"
  fs_isdir :: "string \<Rightarrow> bool"
  fs_size :: "string \<Rightarrow> nat"
  fs_walk :: "string \<Rightarrow> string list"
  path_suffix :: "string \<Rightarrow> string"
  path_str :: "string \<Rightarrow> string"

text \<open>\<open>str.lower\<close>, \<open>str.startswith\<close>, \<open>str.endswith\<close> and \<open>in\<close> on ASCII text.\<close>

definition lower_char :: "char \<Rightarrow> char" where
  "lower_char c =
     (let n = (of_char c :: nat) in if 65 \<le> n \<and> n \<le> 90 then char_of (n + 32) else c)"

definition lower :: "string \<Rightarrow> string" where
  "lower s = map lower_char s"

definition upper_char :: "char \<Rightarrow> char" where
  "upper_char c =
     (let n = (of_char c :: nat) in if 97 \<le> n \<and> n \<le> 122 then char_of (n - 32) else c)"

definition upper :: "string \<Rightarrow> string" where
  "upper s = map upper_char s"

definition startswith :: "string \<Rightarrow> string \<Rightarrow> bool" where
  "startswith s p = (take (length p) s = p)"

definition endswith :: "string \<Rightarrow> string \<Rightarrow> bool" where
  "endswith s e = (length e \<le> length s \<and> drop (length s - length e) s = e)"

fun contains :: "string \<Rightarrow> string \<Rightarrow> bool" where
  "contains [] sub = (sub = [])"
| "contains (c # s) sub = (startswith (c # s) sub \<or> contains s sub)"

text \<open>\<open>_update_config\<close> and \<open>_filter_quality_files\<close>.\<close>

definition override :: "'a \<Rightarrow> 'a option \<Rightarrow> 'a" where
  "override old new = (case new of None \<Rightarrow> old | Some v \<Rightarrow> v)"

definition q_update_config :: "quality_config \<Rightarrow> task_config option \<Rightarrow> quality_config" where
  "q_update_config c task_config =
     (case task_config of
        None \<Rightarrow> c
      | Some tc \<Rightarrow>
          c\<lparr>qc_timeout_seconds := override (qc_timeout_seconds c) (tc_timeout_seconds tc),
            complexity_threshold := override (complexity_threshold c) (tc_complexity_threshold tc),
            duplication_threshold := override (duplication_threshold c) (tc_duplication_threshold tc),
            scan_complexity := override (scan_complexity c) (tc_scan_complexity tc),
            scan_duplication := override (scan_duplication c) (tc_scan_duplication tc)\<rparr>)"

definition quality_extensions :: "quality_config \<Rightarrow> string set" where
  "quality_extensions c =
     (let base = {''.py'', ''.js'', ''.jsx'', ''.ts'', ''.tsx'', ''.mjs'', ''.cjs''};
          extended =
            (if yaml_syntax_enabled c \<and> analysis_mode c \<in> {''syntax_extended'', ''yaml_strict''}
             then base \<union> {''.yaml'', ''.yml''} else base)
      in if analysis_mode c = ''yaml_strict'' then {''.yaml'', ''.yml''} else extended)"

definition filter_quality_files :: "file_system \<Rightarrow> quality_config \<Rightarrow> string list \<Rightarrow> string list" where
  "filter_quality_files fs c files =
     map (path_str fs)
       (filter (\<lambda>p. fs_exists fs p
                     \<and> \<not> fs_size fs p > max_file_size_mb c * 1024 * 1024
                     \<and> lower (path_suffix fs p) \<in> quality_extensions c) files)"

text \<open>
  The quality agent. What lines 196 to 206 of \<open>handle_task\<close> do with the filtered files
  (run the tools, build the report, save it) is an input: either it completes, leaving
  \<open>self.findings\<close> and the names of the tools used, or an exception escapes it, after
  \<open>self.findings\<close> may have been replaced.
\<close>

datatype run_outcome =
    Completed "quality_finding list" "string list"
  | Failed exn "quality_finding list option"

record quality_env =
  q_clock :: clock
  q_fs :: file_system
  q_run :: "string list \<Rightarrow> run_outcome"

record quality_agent = agent +
  q_config :: quality_config
  q_findings :: "quality_finding list"

definition init_quality_agent :: "rat \<Rightarrow> quality_agent" where
  "init_quality_agent now =
     agent.extend
       (client.extend (init_client ''quality'')
          (agent.fields 0 10 now 300))
       (quality_agent.fields default_quality_config [])"

definition no_files_results :: "string \<Rightarrow> json" where
  "no_files_results out =
     JObj [(''findings_count'', JInt 0),
           (''severity_breakdown'', JObj []),
           (''tools_used'', JArr []),
           (''output_file'', JStr out),
           (''analysis_summary'', JStr ''No quality-relevant files found'')]"

definition done_results :: "quality_finding list \<Rightarrow> string list \<Rightarrow> nat \<Rightarrow> string \<Rightarrow> json" where
  "done_results findings tools_used files_analyzed out =
     JObj [(''findings_count'', JInt (int (length findings))),
           (''severity_breakdown'', counts_json (get_severity_breakdown findings)),
           (''category_breakdown'', counts_json (get_category_breakdown findings)),
           (''tools_used'', JArr (map JStr tools_used)),
           (''files_analyzed'', JInt (int files_analyzed)),
           (''output_file'', JStr out),
           (''analysis_summary'', JStr (generate_summary findings tools_used))]"

definition q_failed ::
  "quality_agent \<Rightarrow> clock \<Rightarrow> exn \<Rightarrow> string \<Rightarrow> unit result \<times> quality_agent" where
  "q_failed st c e tid =
     discard (send_task_response (st\<lparr>consecutive_errors := consecutive_errors st + 1\<rparr>) tid
                ''failed''
                (JObj [(''error'', JStr (exn_text e)),
                       (''error_type'', JStr ''quality_analysis_error'')])
                (Some (duration_ms c)))"

definition q_analyse ::
  "quality_env \<Rightarrow> quality_agent \<Rightarrow> string \<Rightarrow> task_data \<Rightarrow> unit result \<times> quality_agent" where
  "q_analyse env st tid td =
     (let out = override [] (output_file td);
          st1 = st\<lparr>q_config :=
                     (q_update_config (q_config st) (config td))
                       \<lparr>analysis_mode := override ''standard'' (mode td)\<rparr>\<rparr>;
          quality_files = filter_quality_files (q_fs env) (q_config st1) (override [] (scope td))
      in if quality_files = [] then
           (case send_task_response st1 tid ''done'' (no_files_results out) (Some 0) of
              (Raised e, st2) \<Rightarrow> q_failed st2 (q_clock env) e tid
            | (Returned _, st2) \<Rightarrow> (Returned (), st2))
         else
           (case q_run env quality_files of
              Failed e kept \<Rightarrow>
                q_failed (st1\<lparr>q_findings := override (q_findings st1) kept\<rparr>) (q_clock env) e tid
            | Completed findings tools_used \<Rightarrow>
                (case send_task_response (st1\<lparr>q_findings := findings\<rparr>) tid ''done''
                        (done_results findings tools_used (length quality_files) out)
                        (Some (duration_ms (q_clock env))) of
                   (Raised e, st2) \<Rightarrow> q_failed st2 (q_clock env) e tid
                 | (Returned _, st2) \<Rightarrow>
                     (Returned (),
                      st2\<lparr>consecutive_errors := 0,
                          last_successful_run := t_success (q_clock env)\<rparr>))))"

definition q_handle_task ::
  "quality_env \<Rightarrow> quality_agent \<Rightarrow> string \<Rightarrow> task_data \<Rightarrow> unit result \<times> quality_agent" where
  "q_handle_task env st tid td =
     (if in_cooldown st (t_gate (q_clock env)) then
        discard (send_task_response st tid ''failed''
                   (cooldown_results st (t_gate (q_clock env))) None)
      else q_analyse env st tid td)"

section \<open>Reading tool output\<close>

text \<open>
  What the parsers do to a JSON value: \<open>x.get(k, d)\<close> raises \<open>AttributeError\<close> unless
  \<open>x\<close> is a dictionary; \<open>for y in x\<close> raises \<open>TypeError\<close> unless \<open>x\<close> is a list, a
  dictionary (its keys) or a string (its characters); \<open>if x\<close> tests truthiness.
\<close>

definition py_get :: "json \<Rightarrow> string \<Rightarrow> json \<Rightarrow> json result" where
  "py_get x k dflt =
     (case x of JObj d \<Rightarrow> Returned (dict_get d k dflt) | _ \<Rightarrow> Raised AttributeError)"

definition py_iter :: "json \<Rightarrow> json list result" where
  "py_iter x =
     (case x of
        JArr xs \<Rightarrow> Returned xs
      | JObj d \<Rightarrow> Returned (map (\<lambda>(k, v). JStr k) d)
      | JStr s \<Rightarrow> Returned (map (\<lambda>c. JStr [c]) s)
      | _ \<Rightarrow> Raised TypeError)"

definition truthy :: "json \<Rightarrow> bool" where
  "truthy x =
     (case x of
        JNull \<Rightarrow> False
      | JBool b \<Rightarrow> b
      | JInt i \<Rightarrow> i \<noteq> 0
      | JFloat r \<Rightarrow> r \<noteq> 0
      | JStr s \<Rightarrow> s \<noteq> []
      | JArr xs \<Rightarrow> xs \<noteq> []
      | JObj d \<Rightarrow> d \<noteq> [])"

definition py_num :: "json \<Rightarrow> rat option" where
  "py_num x =
     (case x of
        JInt i \<Rightarrow> Some (of_int i)
      | JFloat r \<Rightarrow> Some r
      | JBool b \<Rightarrow> Some (if b then 1 else 0)
      | _ \<Rightarrow> None)"

text \<open>\<open>x[-1]\<close> on a truthy value.\<close>

definition py_last :: "json \<Rightarrow> json result" where
  "py_last x =
     (case x of
        JArr xs \<Rightarrow> (if xs = [] then Raised (Exn ''IndexError'' []) else Returned (last xs))
      | JStr s \<Rightarrow> (if s = [] then Raised (Exn ''IndexError'' []) else Returned (JStr [last s]))
      | JObj d \<Rightarrow> Raised KeyError
      | _ \<Rightarrow> Raised TypeError)"

text \<open>
  A parser's loop appends findings to a list and returns that list to the caller even
  when an exception has ended the loop early (the \<open>except\<close> clause only logs). So a loop
  yields the findings made so far together with the exception, if any.
\<close>

fun for_each :: "('a \<Rightarrow> 'b list \<times> exn option) \<Rightarrow> 'a list \<Rightarrow> 'b list \<times> exn option" where
  "for_each body [] = ([], None)"
| "for_each body (x # xs) =
     (case body x of
        (ys, Some e) \<Rightarrow> (ys, Some e)
      | (ys, None) \<Rightarrow> (case for_each body xs of (zs, r) \<Rightarrow> (ys @ zs, r)))"

definition iterate :: "json result \<Rightarrow> (json \<Rightarrow> 'b list \<times> exn option) \<Rightarrow> 'b list \<times> exn option" where
  "iterate r body =
     (case r of
        Raised e \<Rightarrow> ([], Some e)
      | Returned v \<Rightarrow>
          (case py_iter v of
             Raised e \<Rightarrow> ([], Some e)
           | Returned xs \<Rightarrow> for_each body xs))"

definition one :: "'b result \<Rightarrow> 'b list \<times> exn option" where
  "one r = (case r of Raised e \<Rightarrow> ([], Some e) | Returned f \<Rightarrow> ([f], None))"

text \<open>
  A child process as the caller meets it: it was not found, it ran into the timeout, or
  it exited with a return code, its standard output and its standard error. The output
  is empty, or text that \<open>json.loads\<close> rejects, or JSON.
\<close>

datatype tool_output = NoOutput | Unparsable | Parsed json

datatype process = NotFound | TimedOut | Exited int tool_output string

subsection \<open>The quality agent's parsers (\<open>src/quality_agent.py\<close>)\<close>

definition map_ruff_severity :: "json \<Rightarrow> string" where
  "map_ruff_severity fix_availability =
     (if fix_availability = JNull then ''error'' else ''warning'')"

definition get_ruff_category :: "json \<Rightarrow> string result" where
  "get_ruff_category rule_code =
     (case rule_code of
        JStr c \<Rightarrow>
          Returned (if startswith c ''E'' \<or> startswith c ''W'' then ''style''
                    else if startswith c ''F'' then ''error-prone''
                    else if startswith c ''B'' then ''bugbear''
                    else ''other'')
      | _ \<Rightarrow> Raised AttributeError)"

definition ruff_finding :: "json \<Rightarrow> quality_finding result" where
  "ruff_finding item =
     bind (py_get item ''code'' (JStr ''RUFFF'')) (\<lambda>code.
     bind (py_get item ''message'' (JStr [])) (\<lambda>msg.
     bind (py_get item ''fix'' (JObj [])) (\<lambda>fix.
     bind (py_get fix ''availability'' JNull) (\<lambda>availability.
     bind (py_get item ''filename'' (JStr [])) (\<lambda>filename.
     bind (py_get item ''location'' (JObj [])) (\<lambda>location.
     bind (py_get location ''row'' (JInt 0)) (\<lambda>row.
     bind (py_get location ''column'' (JInt 0)) (\<lambda>col.
     bind (py_get item ''end_location'' (JObj [])) (\<lambda>end_location.
     bind (py_get end_location ''row'' JNull) (\<lambda>end_row.
     bind (py_get end_location ''column'' JNull) (\<lambda>end_col.
     bind (py_get item ''code'' (JStr [])) (\<lambda>code'.
     bind (get_ruff_category code') (\<lambda>cat.
     bind (if truthy fix then py_get fix ''message'' JNull else Returned JNull) (\<lambda>suggestion.
     bind (py_get item ''url'' JNull) (\<lambda>url.
     Returned
       \<lparr> tool = JStr ''ruff'', rule_id = code, message = msg,
         severity = map_ruff_severity availability,
         file_path = filename, line_number = row, column_number = col,
         end_line_number = end_row, end_column_number = end_col,
         category = Some cat, score = JNull, fix_suggestion = suggestion,
         metadata = JObj [(''url'', url), (''fix'', fix)] \<rparr>)))))))))))))))"

definition parse_ruff :: "json \<Rightarrow> quality_finding list \<times> exn option" where
  "parse_ruff ruff_results = iterate (Returned ruff_results) (\<lambda>item. one (ruff_finding item))"

text \<open>
  \<open>_run_ruff_analysis\<close>: whatever the return code, non-empty standard output is parsed.
\<close>

definition run_ruff_analysis :: "process \<Rightarrow> quality_finding list" where
  "run_ruff_analysis p =
     (case p of
        NotFound \<Rightarrow> []
      | TimedOut \<Rightarrow> []
      | Exited returncode out err \<Rightarrow>
          (case out of
             NoOutput \<Rightarrow> []
           | Unparsable \<Rightarrow> []
           | Parsed ruff_results \<Rightarrow> fst (parse_ruff ruff_results)))"

definition map_eslint_severity :: "json \<Rightarrow> string" where
  "map_eslint_severity sev = (if py_num sev = Some 2 then ''error'' else ''warning'')"

definition get_eslint_category :: "json \<Rightarrow> string result" where
  "get_eslint_category rule =
     (if \<not> truthy rule then Returned ''other''
      else case rule of
        JStr r \<Rightarrow>
          Returned (if startswith r ''no-'' then ''error-prone''
                    else if startswith r ''prefer-'' then ''style''
                    else if contains r ''import'' then ''imports''
                    else ''other'')
      | _ \<Rightarrow> Raised AttributeError)"

definition eslint_finding :: "json \<Rightarrow> json \<Rightarrow> quality_finding result" where
  "eslint_finding file_result msg =
     bind (py_get msg ''ruleId'' (JStr ''ESLINT'')) (\<lambda>rule.
     bind (py_get msg ''message'' (JStr [])) (\<lambda>text.
     bind (py_get msg ''severity'' (JInt 1)) (\<lambda>sev.
     bind (py_get file_result ''filePath'' (JStr [])) (\<lambda>path.
     bind (py_get msg ''line'' (JInt 0)) (\<lambda>line.
     bind (py_get msg ''column'' (JInt 0)) (\<lambda>col.
     bind (py_get msg ''endLine'' JNull) (\<lambda>end_line.
     bind (py_get msg ''endColumn'' JNull) (\<lambda>end_col.
     bind (py_get msg ''ruleId'' (JStr [])) (\<lambda>rule'.
     bind (get_eslint_category rule') (\<lambda>cat.
     bind (py_get msg ''suggestions'' JNull) (\<lambda>suggestions.
     bind (if truthy suggestions
           then bind (py_last suggestions) (\<lambda>s. py_get s ''desc'' JNull)
           else Returned JNull) (\<lambda>suggestion.
     bind (py_get msg ''ruleId'' JNull) (\<lambda>rule''.
     bind (py_get msg ''suggestions'' (JArr [])) (\<lambda>suggestions'.
     Returned
       \<lparr> tool = JStr ''eslint'', rule_id = rule, message = text,
         severity = map_eslint_severity sev,
         file_path = path, line_number = line, column_number = col,
         end_line_number = end_line, end_column_number = end_col,
         category = Some cat, score = JNull, fix_suggestion = suggestion,
         metadata = JObj [(''ruleId'', rule''), (''suggestions'', suggestions')] \<rparr>))))))))))))))"

definition parse_eslint :: "json \<Rightarrow> quality_finding list \<times> exn option" where
  "parse_eslint eslint_results =
     iterate (Returned eslint_results) (\<lambda>file_result.
       iterate (py_get file_result ''messages'' (JArr [])) (\<lambda>msg.
         one (eslint_finding file_result msg)))"

text \<open>
  \<open>_run_complexity_analysis\<close> reads Lizard's JSON. \<open>py_str\<close> stands for Python's
  \<open>str()\<close>, which the f-strings apply to values taken from the tool's output.
\<close>

definition map_complexity_severity :: "rat \<Rightarrow> string" where
  "map_complexity_severity complexity =
     (if complexity \<ge> 20 then ''error'' else if complexity \<ge> 15 then ''warning'' else ''info'')"

definition complexity_findings ::
  "(json \<Rightarrow> string) \<Rightarrow> int \<Rightarrow> json \<Rightarrow> json \<Rightarrow> quality_finding list \<times> exn option" where
  "complexity_findings py_str threshold file_info function =
     (case py_get function ''complexity'' (JInt 0) of
        Raised e \<Rightarrow> ([], Some e)
      | Returned complexity \<Rightarrow>
          (case py_num complexity of
             None \<Rightarrow> ([], Some TypeError)
           | Some c \<Rightarrow>
               if c > of_int threshold then
                 one (bind (py_get function ''name'' (JStr [])) (\<lambda>name.
                      bind (py_get file_info ''name'' (JStr [])) (\<lambda>path.
                      bind (py_get function ''start_line'' (JInt 0)) (\<lambda>line.
                      bind (py_get function ''end_line'' JNull) (\<lambda>end_line.
                      bind (py_get function ''name'' JNull) (\<lambda>name'.
                      bind (py_get function ''token_count'' (JInt 0)) (\<lambda>tokens.
                      Returned
                        \<lparr> tool = JStr ''lizard'', rule_id = JStr ''COMPLEXITY'',
                          message = JStr (''Function '' @ [CHR 0x27] @ py_str name @ [CHR 0x27]
                                          @ '' has high cyclomatic complexity: ''
                                          @ py_str complexity),
                          severity = map_complexity_severity c,
                          file_path = path, line_number = line, column_number = JNull,
                          end_line_number = end_line, end_column_number = JNull,
                          category = Some ''complexity'', score = complexity,
                          fix_suggestion =
                            JStr (''Consider refactoring this function to reduce complexity below ''
                                  @ str_int threshold),
                          metadata = JObj [(''function_name'', name'), (''complexity'', complexity),
                                           (''token_count'', tokens)] \<rparr>)))))))
               else ([], None)))"

definition parse_lizard ::
  "(json \<Rightarrow> string) \<Rightarrow> int \<Rightarrow> json \<Rightarrow> quality_finding list \<times> exn option" where
  "parse_lizard py_str threshold lizard_data =
     iterate (Returned lizard_data) (\<lambda>file_info.
       iterate (py_get file_info ''functions'' (JArr [])) (\<lambda>function.
         complexity_findings py_str threshold file_info function))"

section \<open>The security agent (\<open>src/security_agent.py\<close>)\<close>

record security_config =
  sc_timeout_seconds :: int
  sc_max_file_size_mb :: nat
  scan_secrets :: bool
  scan_dependencies :: bool
  semgrep_rules :: "string list"
  gitleaks_enabled :: bool
  osv_scanner_enabled :: bool

definition default_security_config :: security_config where
  "default_security_config =
     \<lparr> sc_timeout_seconds = 60, sc_max_file_size_mb = 10, scan_secrets = True,
       scan_dependencies = True,
       semgrep_rules = [''p/security-audit'', ''p/owasp-top-ten'', ''p/cwe-top-25''],
       gitleaks_enabled = True, osv_scanner_enabled = True \<rparr>"

text \<open>\<open>SecurityFinding\<close>; as for \<open>QualityFinding\<close>, only \<open>severity\<close> is sure to be a string.\<close>

record security_finding =
  sf_rule_id :: json
  sf_message :: json
  sf_severity :: string
  sf_file_path :: json
  sf_line_number :: json
  sf_column_number :: json
  sf_cwe_id :: json
  sf_owasp_category :: json
  sf_confidence :: json
  sf_metadata :: json

subsection \<open>Its parsers\<close>

definition convert_semgrep_severity :: "json \<Rightarrow> string result" where
  "convert_semgrep_severity semgrep_severity =
     (case semgrep_severity of
        JStr s \<Rightarrow>
          Returned (dict_get_str [(''ERROR'', ''error''), (''WARNING'', ''warning''), (''INFO'', ''info'')]
                      (upper s) ''info'')
      | _ \<Rightarrow> Raised AttributeError)"

definition convert_npm_severity :: "json \<Rightarrow> string result" where
  "convert_npm_severity npm_severity =
     (case npm_severity of
        JStr s \<Rightarrow>
          Returned (dict_get_str [(''critical'', ''error''), (''high'', ''error''),
                                  (''moderate'', ''warning''), (''low'', ''info''), (''info'', ''info'')]
                      s ''warning'')
      | JArr _ \<Rightarrow> Raised TypeError
      | JObj _ \<Rightarrow> Raised TypeError
      | _ \<Rightarrow> Returned ''warning'')"

definition convert_pip_severity :: "json \<Rightarrow> string result" where
  "convert_pip_severity pip_severity =
     (case pip_severity of
        JStr s \<Rightarrow>
          Returned (dict_get_str [(''critical'', ''error''), (''high'', ''error''),
                                  (''medium'', ''warning''), (''low'', ''info'')]
                      s ''warning'')
      | JArr _ \<Rightarrow> Raised TypeError
      | JObj _ \<Rightarrow> Raised TypeError
      | _ \<Rightarrow> Returned ''warning'')"

definition convert_osv_severity :: "json \<Rightarrow> string result" where
  "convert_osv_severity osv_severity =
     (case osv_severity of
        JStr s \<Rightarrow>
          Returned (dict_get_str [(''CRITICAL'', ''error''), (''HIGH'', ''error''),
                                  (''MEDIUM'', ''warning''), (''LOW'', ''info'')]
                      (upper s) ''warning'')
      | _ \<Rightarrow> Raised AttributeError)"

definition semgrep_finding :: "json \<Rightarrow> security_finding result" where
  "semgrep_finding r =
     bind (py_get r ''rule_id'' (JStr ''unknown'')) (\<lambda>rule.
     bind (py_get r ''message'' (JStr [])) (\<lambda>msg.
     bind (py_get r ''metadata'' (JObj [])) (\<lambda>meta.
     bind (py_get meta ''severity'' (JStr ''INFO'')) (\<lambda>sev.
     bind (convert_semgrep_severity sev) (\<lambda>sev'.
     bind (py_get r ''path'' (JStr [])) (\<lambda>path.
     bind (py_get r ''start'' (JObj [])) (\<lambda>start.
     bind (py_get start ''line'' (JInt 0)) (\<lambda>line.
     bind (py_get start ''col'' (JInt 0)) (\<lambda>col.
     bind (py_get meta ''cwe'' (JObj [])) (\<lambda>cwe.
     bind (py_get cwe ''id'' JNull) (\<lambda>cwe_id.
     bind (py_get meta ''confidence'' (JStr ''unknown'')) (\<lambda>conf.
     Returned
       \<lparr> sf_rule_id = rule, sf_message = msg, sf_severity = sev', sf_file_path = path,
         sf_line_number = line, sf_column_number = col, sf_cwe_id = cwe_id,
         sf_owasp_category = JNull, sf_confidence = conf, sf_metadata = meta \<rparr>))))))))))))"

definition parse_semgrep_json :: "json \<Rightarrow> security_finding list \<times> exn option" where
  "parse_semgrep_json data =
     iterate (py_get data ''results'' (JArr [])) (\<lambda>run.
       iterate (py_get run ''results'' (JArr [])) (\<lambda>r. one (semgrep_finding r)))"

definition parse_semgrep_output :: "tool_output \<Rightarrow> security_finding list" where
  "parse_semgrep_output out =
     (case out of Parsed data \<Rightarrow> fst (parse_semgrep_json data) | _ \<Rightarrow> [])"

definition gitleaks_finding :: "json \<Rightarrow> security_finding result" where
  "gitleaks_finding finding =
     bind (py_get finding ''rule'' (JStr ''gitleaks-secret'')) (\<lambda>rule.
     bind (py_get finding ''description'' (JStr [])) (\<lambda>msg.
     bind (py_get finding ''file'' (JStr [])) (\<lambda>path.
     bind (py_get finding ''line'' (JInt 0)) (\<lambda>line.
     bind (py_get finding ''start_column'' (JInt 0)) (\<lambda>col.
     bind (py_get finding ''fingerprint'' JNull) (\<lambda>fp.
     bind (py_get finding ''tags'' (JArr [])) (\<lambda>tags.
     Returned
       \<lparr> sf_rule_id = rule, sf_message = msg, sf_severity = ''error'', sf_file_path = path,
         sf_line_number = line, sf_column_number = col, sf_cwe_id = JNull,
         sf_owasp_category = JNull, sf_confidence = JNull,
         sf_metadata = JObj [(''fingerprint'', fp), (''tags'', tags)] \<rparr>)))))))"

text \<open>The report file: \<open>None\<close> when it cannot be opened.\<close>

definition parse_gitleaks_output :: "tool_output option \<Rightarrow> security_finding list" where
  "parse_gitleaks_output report =
     (case report of
        Some (Parsed data) \<Rightarrow>
          fst (iterate (py_get data ''findings'' (JArr [])) (\<lambda>finding. one (gitleaks_finding finding)))
      | _ \<Rightarrow> [])"

definition npm_finding :: "(json \<Rightarrow> string) \<Rightarrow> json \<Rightarrow> json \<Rightarrow> security_finding result" where
  "npm_finding py_str advisory affected_package =
     bind (py_get advisory ''id'' (JStr ''unknown'')) (\<lambda>ident.
     bind (py_get advisory ''title'' (JStr [])) (\<lambda>title.
     bind (py_get advisory ''severity'' (JStr ''moderate'')) (\<lambda>sev.
     bind (convert_npm_severity sev) (\<lambda>sev'.
     bind (py_get advisory ''id'' JNull) (\<lambda>ident'.
     bind (py_get advisory ''version'' JNull) (\<lambda>version.
     bind (py_get advisory ''url'' JNull) (\<lambda>url.
     Returned
       \<lparr> sf_rule_id = JStr (''npm-'' @ py_str ident), sf_message = title, sf_severity = sev',
         sf_file_path = JStr ''package.json'', sf_line_number = JInt 0,
         sf_column_number = JNull, sf_cwe_id = JNull, sf_owasp_category = JNull,
         sf_confidence = JNull,
         sf_metadata = JObj [(''advisory_id'', ident'), (''package'', affected_package),
                             (''version'', version), (''url'', url)] \<rparr>)))))))"

definition parse_npm_audit_output :: "(json \<Rightarrow> string) \<Rightarrow> tool_output \<Rightarrow> security_finding list" where
  "parse_npm_audit_output py_str out =
     (case out of
        Parsed data \<Rightarrow>
          fst (iterate (py_get data ''vulnerabilities'' (JArr [])) (\<lambda>advisory.
                 iterate (py_get advisory ''affectedPackages'' (JArr [])) (\<lambda>affected_package.
                   one (npm_finding py_str advisory affected_package))))
      | _ \<Rightarrow> [])"

definition pip_finding :: "(json \<Rightarrow> string) \<Rightarrow> json \<Rightarrow> security_finding result" where
  "pip_finding py_str vuln =
     bind (py_get vuln ''id'' (JStr ''unknown'')) (\<lambda>ident.
     bind (py_get vuln ''advisory'' (JStr [])) (\<lambda>advisory.
     bind (py_get vuln ''severity'' (JStr ''medium'')) (\<lambda>sev.
     bind (convert_pip_severity sev) (\<lambda>sev'.
     bind (py_get vuln ''package'' JNull) (\<lambda>package.
     bind (py_get vuln ''version'' JNull) (\<lambda>version.
     bind (py_get vuln ''cve'' JNull) (\<lambda>cve.
     Returned
       \<lparr> sf_rule_id = JStr (''pip-'' @ py_str ident), sf_message = advisory, sf_severity = sev',
         sf_file_path = JStr ''requirements.txt'', sf_line_number = JInt 0,
         sf_column_number = JNull, sf_cwe_id = JNull, sf_owasp_category = JNull,
         sf_confidence = JNull,
         sf_metadata = JObj [(''package'', package), (''version'', version), (''cve'', cve)] \<rparr>)))))))"

definition parse_pip_audit_output :: "(json \<Rightarrow> string) \<Rightarrow> tool_output \<Rightarrow> security_finding list" where
  "parse_pip_audit_output py_str out =
     (case out of
        Parsed data \<Rightarrow>
          fst (iterate (py_get data ''vulnerabilities'' (JArr [])) (\<lambda>vuln. one (pip_finding py_str vuln)))
      | _ \<Rightarrow> [])"

definition osv_finding :: "(json \<Rightarrow> string) \<Rightarrow> json \<Rightarrow> json \<Rightarrow> security_finding result" where
  "osv_finding py_str vuln package =
     bind (py_get vuln ''id'' (JStr ''unknown'')) (\<lambda>ident.
     bind (py_get vuln ''description'' (JStr [])) (\<lambda>description.
     bind (py_get vuln ''severity'' (JStr ''moderate'')) (\<lambda>sev.
     bind (convert_osv_severity sev) (\<lambda>sev'.
     bind (py_get package ''package'' (JStr [])) (\<lambda>name.
     bind (py_get package ''ecosystem'' (JStr [])) (\<lambda>ecosystem.
     bind (py_get vuln ''id'' JNull) (\<lambda>ident'.
     bind (py_get vuln ''aliases'' (JArr [])) (\<lambda>aliases.
     Returned
       \<lparr> sf_rule_id = JStr (''osv-'' @ py_str ident), sf_message = description, sf_severity = sev',
         sf_file_path = JStr ''package-lock.json'', sf_line_number = JInt 0,
         sf_column_number = JNull, sf_cwe_id = JNull, sf_owasp_category = JNull,
         sf_confidence = JNull,
         sf_metadata = JObj [(''package'', name), (''ecosystem'', ecosystem),
                             (''vulnerability_id'', ident'), (''aliases'', aliases)] \<rparr>))))))))"

definition parse_osv_scanner_output ::
  "(json \<Rightarrow> string) \<Rightarrow> tool_output option \<Rightarrow> security_finding list" where
  "parse_osv_scanner_output py_str report =
     (case report of
        Some (Parsed data) \<Rightarrow>
          fst (iterate (py_get data ''results'' (JArr [])) (\<lambda>vuln.
                 iterate (py_get vuln ''packages'' (JArr [])) (\<lambda>package.
                   one (osv_finding py_str vuln package))))
      | _ \<Rightarrow> [])"

text \<open>\<open>_parse_poetry_audit_output\<close> reads plain text.\<close>

fun split_on :: "char \<Rightarrow> string \<Rightarrow> string list" where
  "split_on sep [] = [[]]"
| "split_on sep (c # cs) =
     (if c = sep then [] # split_on sep cs
      else case split_on sep cs of [] \<Rightarrow> [[c]] | w # ws \<Rightarrow> (c # w) # ws)"

definition is_space :: "char \<Rightarrow> bool" where
  "is_space c = ((of_char c :: nat) \<in> {9, 10, 11, 12, 13, 28, 29, 30, 31, 32})"

definition strip :: "string \<Rightarrow> string" where
  "strip s = rev (dropWhile is_space (rev (dropWhile is_space s)))"

definition parse_poetry_audit_output :: "string \<Rightarrow> security_finding list" where
  "parse_poetry_audit_output out =
     (if contains out ''vulnerabilities found'' then
        map (\<lambda>line.
               \<lparr> sf_rule_id = JStr ''poetry-audit'', sf_message = JStr (strip line),
                 sf_severity = ''warning'', sf_file_path = JStr ''pyproject.toml'',
                 sf_line_number = JInt 0, sf_column_number = JNull, sf_cwe_id = JNull,
                 sf_owasp_category = JNull, sf_confidence = JNull, sf_metadata = JNull \<rparr>)
          (filter (\<lambda>line. contains line ''CVE-'' \<or> contains line ''vulnerability'')
             (split_on (CHR 0x0A) out))
      else [])"

subsection \<open>Running the tools\<close>

text \<open>
  \<open>_run_semgrep\<close> and \<open>_run_gitleaks\<close> wrap the finished child process with
  \<open>subprocess.CompletedProcess(cmd=cmd, returncode=..., stdout=..., stderr=...)\<close>. The
  constructor's first parameter is named \<open>args\<close> and it has no parameter \<open>cmd\<close>, so
  this call raises \<open>TypeError\<close>; the method's \<open>except Exception\<close> turns that into an
  empty result. (\<open>_run_ruff_analysis\<close> passes \<open>args=cmd\<close>.)
\<close>

definition completed_process_cmd :: "int \<Rightarrow> tool_output \<Rightarrow> (int \<times> tool_output) result" where
  "completed_process_cmd returncode out = Raised TypeError"

text \<open>Lines 401 to 405: what \<open>_run_semgrep\<close> does with a completed process.\<close>

definition semgrep_result :: "int \<Rightarrow> tool_output \<Rightarrow> security_finding list" where
  "semgrep_result returncode out = (if returncode = 0 then parse_semgrep_output out else [])"

definition run_semgrep :: "security_config \<Rightarrow> process \<Rightarrow> security_finding list" where
  "run_semgrep c p =
     (if semgrep_rules c = [] then []
      else case p of
        NotFound \<Rightarrow> []
      | TimedOut \<Rightarrow> []
      | Exited returncode out err \<Rightarrow>
          (case completed_process_cmd returncode out of
             Raised e \<Rightarrow> []
           | Returned (rc, stdout) \<Rightarrow> semgrep_result rc stdout))"

definition run_gitleaks :: "process \<Rightarrow> tool_output option \<Rightarrow> security_finding list" where
  "run_gitleaks p report =
     (case p of
        NotFound \<Rightarrow> []
      | TimedOut \<Rightarrow> []
      | Exited returncode out err \<Rightarrow>
          (case completed_process_cmd returncode out of
             Raised e \<Rightarrow> []
           | Returned (rc, stdout) \<Rightarrow> if rc = 0 then parse_gitleaks_output report else []))"

subsection \<open>Scope filter\<close>

definition path_join :: "string \<Rightarrow> string \<Rightarrow> string" where
  "path_join a b =
     (if a = [] then b else if endswith a ''/'' then a @ b else a @ ''/'' @ b)"

definition absolute :: "file_system \<Rightarrow> string \<Rightarrow> string" where
  "absolute fs p = (if startswith p ''/'' then p else path_join (fs_cwd fs) p)"

definition basename :: "string \<Rightarrow> string" where
  "basename p = rev (takeWhile (\<lambda>c. c \<noteq> CHR ''/'') (rev p))"

definition security_extensions :: "string list" where
  "security_extensions =
     [''.py'', ''.js'', ''.ts'', ''.java'', ''.go'', ''.rs'', ''.c'', ''.cpp'', ''.h'', ''.hpp'',
      ''.php'', ''.rb'', ''.swift'', ''.kt'']"

definition security_file_names :: "string list" where
  "security_file_names =
     [''package.json'', ''package-lock.json'', ''yarn.lock'', ''requirements.txt'',
      ''poetry.lock'', ''pipfile.lock'', ''dockerfile'', ''docker-compose.yml'',
      ''docker-compose.yaml'', ''.env'', ''.env.example'', ''config'', ''secrets'',
      ''webpack.config.js'', ''tsconfig.json'', ''babel.config.js'']"

definition is_security_relevant_file :: "string \<Rightarrow> bool" where
  "is_security_relevant_file p =
     (list_ex (endswith (lower p)) security_extensions
      \<or> basename (lower p) \<in> set security_file_names)"

text \<open>\<open>_filter_security_files\<close>; \<open>list(set(...))\<close> keeps one copy of each path, in no promised order.\<close>

definition filter_security_files :: "file_system \<Rightarrow> string list \<Rightarrow> string list" where
  "filter_security_files fs files =
     remdups (concat (map (\<lambda>file_pattern.
        let p = absolute fs file_pattern in
        if fs_exists fs p then
          (if fs_isfile fs p then [p]
           else if fs_isdir fs p then filter is_security_relevant_file (fs_walk fs p)
           else [])
        else []) files))"

subsection \<open>The task handler\<close>

text \<open>
  \<open>self.findings\<close> is meant to hold \<open>SecurityFinding\<close> objects. \<open>_run_security_analysis\<close>
  extends it with the dictionary that \<open>_run_dependency_analysis\<close> returns, which appends
  the dictionary's keys, the strings \<open>findings\<close> and \<open>tools_used\<close>; hence the second
  constructor.
\<close>

datatype sec_item = Finding security_finding | Key string

record scan_results =
  sr_findings :: "sec_item list"
  sr_tools_used :: "string list"
  sr_scan_time :: rat
  sr_files_scanned :: nat

text \<open>
  What the surroundings contribute to one task: the clock, the file system, the Semgrep
  and Gitleaks child processes and the Gitleaks report, the tool names that
  \<open>_run_dependency_analysis\<close> reports, the measured scan time, \<open>os.path.relpath\<close> and the
  \<open>.2f\<close> format.
\<close>

record security_env =
  s_clock :: clock
  s_fs :: file_system
  semgrep_proc :: process
  gitleaks_proc :: process
  gitleaks_report :: "tool_output option"
  dep_tools_used :: "string list"
  scan_time :: rat
  relpath :: "json \<Rightarrow> json \<Rightarrow> string result"
  format_2f :: "rat \<Rightarrow> string"

record security_agent = agent +
  s_config :: security_config
  s_findings :: "sec_item list"

definition init_security_agent :: "rat \<Rightarrow> security_agent" where
  "init_security_agent now =
     agent.extend
       (client.extend (init_client ''security'')
          (agent.fields 0 10 now 300))
       (security_agent.fields default_security_config [])"

definition s_update_config :: "security_config \<Rightarrow> task_config option \<Rightarrow> security_config" where
  "s_update_config c task_config =
     (case task_config of
        None \<Rightarrow> c
      | Some tc \<Rightarrow>
          c\<lparr>sc_timeout_seconds := override (sc_timeout_seconds c) (tc_timeout_seconds tc),
            scan_secrets := override (scan_secrets c) (tc_scan_secrets tc),
            scan_dependencies := override (scan_dependencies c) (tc_scan_dependencies tc),
            semgrep_rules := override (semgrep_rules c) (tc_semgrep_rules tc),
            gitleaks_enabled := override (gitleaks_enabled c) (tc_gitleaks_enabled tc),
            osv_scanner_enabled := override (osv_scanner_enabled c) (tc_osv_scanner_enabled tc)\<rparr>)"

text \<open>
  \<open>_run_security_analysis\<close>. With no relevant file it returns at once, before the line
  that stores the new findings in \<open>self.findings\<close>.
\<close>

definition run_security_analysis ::
  "security_env \<Rightarrow> security_agent \<Rightarrow> string list \<Rightarrow> scan_results \<times> security_agent" where
  "run_security_analysis env st files =
     (let results = \<lparr> sr_findings = [], sr_tools_used = [], sr_scan_time = 0, sr_files_scanned = 0 \<rparr>;
          security_files = filter_security_files (s_fs env) files
      in if security_files = [] then (results, st)
         else
           (let semgrep_results = run_semgrep (s_config st) (semgrep_proc env);
                r1 = (if semgrep_results \<noteq> []
                      then results\<lparr>sr_findings := map Finding semgrep_results,
                                   sr_tools_used := [''semgrep'']\<rparr>
                      else results);
                gitleaks_results =
                  (if scan_secrets (s_config st) \<and> gitleaks_enabled (s_config st)
                   then run_gitleaks (gitleaks_proc env) (gitleaks_report env) else []);
                r2 = (if gitleaks_results \<noteq> []
                      then r1\<lparr>sr_findings := sr_findings r1 @ map Finding gitleaks_results,
                              sr_tools_used := List.union (sr_tools_used r1) [''gitleaks'']\<rparr>
                      else r1);
                r3 = (if scan_dependencies (s_config st)
                      then r2\<lparr>sr_findings := sr_findings r2 @ [Key ''findings'', Key ''tools_used''],
                              sr_tools_used := List.union (sr_tools_used r2) (dep_tools_used env)\<rparr>
                      else r2);
                r4 = r3\<lparr>sr_scan_time := scan_time env, sr_files_scanned := length security_files\<rparr>
            in (r4, st\<lparr>s_findings := sr_findings r4\<rparr>)))"

text \<open>
  \<open>_generate_sarif_report\<close>: one result per element of \<open>self.findings\<close>; the fields of an
  element without the attribute get the defaults.
\<close>

record sarif_result =
  ruleId :: json
  level :: string
  message_text :: json
  uri :: string
  startLine :: json
  startColumn :: json
  properties :: "(string \<times> json) list"

definition sarif_result_of ::
  "(json \<Rightarrow> json \<Rightarrow> string result) \<Rightarrow> json \<Rightarrow> sec_item \<Rightarrow> sarif_result result" where
  "sarif_result_of rel ctx item =
     (case item of
        Finding f \<Rightarrow>
          bind (py_get ctx ''repo_root'' (JStr ''.'')) (\<lambda>root.
          bind (rel (sf_file_path f) root) (\<lambda>u.
          Returned
            \<lparr> ruleId = sf_rule_id f, level = lower (sf_severity f), message_text = sf_message f,
              uri = u, startLine = sf_line_number f, startColumn = sf_column_number f,
              properties = [(''cwe'', sf_cwe_id f), (''owasp'', sf_owasp_category f),
                            (''confidence'', sf_confidence f)] \<rparr>))
      | Key k \<Rightarrow>
          Returned
            \<lparr> ruleId = JStr ''basic-security-check'', level = ''warning'', message_text = JStr k,
              uri = ''unknown'', startLine = JInt 1, startColumn = JInt 0,
              properties = [(''cwe'', JNull), (''owasp'', JNull), (''confidence'', JNull)] \<rparr>)"

fun generate_sarif_report ::
  "(json \<Rightarrow> json \<Rightarrow> string result) \<Rightarrow> json \<Rightarrow> sec_item list \<Rightarrow> sarif_result list result" where
  "generate_sarif_report rel ctx [] = Returned []"
| "generate_sarif_report rel ctx (item # items) =
     bind (sarif_result_of rel ctx item) (\<lambda>r.
     bind (generate_sarif_report rel ctx items) (\<lambda>rs. Returned (r # rs)))"

text \<open>\<open>_get_severity_breakdown\<close> reads \<open>finding.severity\<close>, which a string does not have.\<close>

fun s_get_severity_breakdown ::
  "(string \<times> nat) list \<Rightarrow> sec_item list \<Rightarrow> (string \<times> nat) list result" where
  "s_get_severity_breakdown breakdown [] = Returned breakdown"
| "s_get_severity_breakdown breakdown (Finding f # items) =
     s_get_severity_breakdown (bump breakdown (sf_severity f)) items"
| "s_get_severity_breakdown breakdown (Key k # items) = Raised AttributeError"

definition count_of :: "(string \<times> nat) list \<Rightarrow> string \<Rightarrow> nat" where
  "count_of d k = (case map_of d k of None \<Rightarrow> 0 | Some n \<Rightarrow> n)"

definition s_generate_summary ::
  "security_env \<Rightarrow> sec_item list \<Rightarrow> scan_results \<Rightarrow> string result" where
  "s_generate_summary env findings results =
     bind (s_get_severity_breakdown [(''error'', 0), (''warning'', 0), (''info'', 0)] findings)
       (\<lambda>severity_breakdown.
     Returned
       (''Security analysis completed using '' @ join '', '' (sr_tools_used results) @ ''.''
        @ [CHR 0x0A] @ ''Found '' @ str_nat (length findings) @ '' issues: ''
        @ str_nat (count_of severity_breakdown ''error'') @ '' critical, ''
        @ str_nat (count_of severity_breakdown ''warning'') @ '' warnings, ''
        @ str_nat (count_of severity_breakdown ''info'') @ '' info.''
        @ [CHR 0x0A] @ ''Analysis took '' @ format_2f env (sr_scan_time results)
        @ '' seconds scanning '' @ str_nat (sr_files_scanned results) @ '' files.''))"

definition s_done_results ::
  "security_env \<Rightarrow> sec_item list \<Rightarrow> scan_results \<Rightarrow> string \<Rightarrow> json result" where
  "s_done_results env findings results out =
     bind (s_get_severity_breakdown [(''error'', 0), (''warning'', 0), (''info'', 0)] findings)
       (\<lambda>severity_breakdown.
     bind (s_generate_summary env findings results) (\<lambda>summary.
     Returned
       (JObj [(''findings_count'', JInt (int (length findings))),
              (''severity_breakdown'', counts_json severity_breakdown),
              (''tools_used'', JArr (map JStr (sr_tools_used results))),
              (''output_file'', JStr out),
              (''analysis_summary'', JStr summary)])))"

definition s_failed ::
  "security_agent \<Rightarrow> clock \<Rightarrow> exn \<Rightarrow> string \<Rightarrow> unit result \<times> security_agent" where
  "s_failed st c e tid =
     discard (send_task_response (st\<lparr>consecutive_errors := consecutive_errors st + 1\<rparr>) tid
                ''failed''
                (JObj [(''error'', JStr (exn_text e)), (''error_type'', JStr (exn_name e))])
                (Some (duration_ms c)))"

definition s_analyse ::
  "security_env \<Rightarrow> security_agent \<Rightarrow> string \<Rightarrow> task_data \<Rightarrow> unit result \<times> security_agent" where
  "s_analyse env st tid td =
     (let ctx = override (JObj []) (task_context td);
          out = override [] (output_file td);
          st1 = st\<lparr>s_config := s_update_config (s_config st) (config td)\<rparr>
      in case run_security_analysis env st1 (override [] (scope td)) of
           (results, st2) \<Rightarrow>
             (case generate_sarif_report (relpath env) ctx (s_findings st2) of
                Raised e \<Rightarrow> s_failed st2 (s_clock env) e tid
              | Returned sarif_report \<Rightarrow>
                  (case s_done_results env (s_findings st2) results out of
                     Raised e \<Rightarrow> s_failed st2 (s_clock env) e tid
                   | Returned res \<Rightarrow>
                       (case send_task_response st2 tid ''done'' res
                               (Some (duration_ms (s_clock env))) of
                          (Raised e, st3) \<Rightarrow> s_failed st3 (s_clock env) e tid
                        | (Returned _, st3) \<Rightarrow>
                            (Returned (),
                             st3\<lparr>consecutive_errors := 0,
                                 last_successful_run := t_success (s_clock env)\<rparr>)))))"

definition s_handle_task ::
  "security_env \<Rightarrow> security_agent \<Rightarrow> string \<Rightarrow> task_data \<Rightarrow> unit result \<times> security_agent" where
  "s_handle_task env st tid td =
     (if in_cooldown st (t_gate (s_clock env)) then
        discard (send_task_response st tid ''failed''
                   (cooldown_results st (t_gate (s_clock env))) None)
      else s_analyse env st tid td)"

section \<open>The stand-alone agents (\<open>packages/agents/quality_agent.py\<close>, \<open>security_agent.py\<close>)\<close>

text \<open>
  The result dictionary of one tool: \<open>{"success": False, "error": ...}\<close> or
  \<open>{"success": True, "findings": ..., "total_findings": ...}\<close>. The report file that the
  tool was asked to write is \<open>None\<close> when it does not exist.
\<close>

datatype tool_run = Failure string | Success json nat

definition py_len :: "json \<Rightarrow> nat result" where
  "py_len x =
     (case x of
        JArr xs \<Rightarrow> Returned (length xs)
      | JObj d \<Rightarrow> Returned (length d)
      | JStr s \<Rightarrow> Returned (length s)
      | _ \<Rightarrow> Raised TypeError)"

definition run_ruff :: "process \<Rightarrow> tool_output option \<Rightarrow> tool_run" where
  "run_ruff p report =
     (case p of
        NotFound \<Rightarrow> Failure ''ruff not found''
      | TimedOut \<Rightarrow> Failure ''Analysis timed out''
      | Exited returncode out err \<Rightarrow>
          if returncode \<notin> {0, 1} then Failure err
          else (case report of
                  None \<Rightarrow> Success (JArr []) 0
                | Some (Parsed ruff_data) \<Rightarrow>
                    Success ruff_data (case ruff_data of JArr xs \<Rightarrow> length xs | _ \<Rightarrow> 0)
                | Some _ \<Rightarrow> Success (JArr []) 0))"

definition run_eslint :: "process \<Rightarrow> tool_output option \<Rightarrow> tool_run" where
  "run_eslint p report =
     (case p of
        NotFound \<Rightarrow> Failure ''eslint not found''
      | TimedOut \<Rightarrow> Failure ''Analysis timed out''
      | Exited returncode out err \<Rightarrow>
          if returncode \<notin> {0, 1} then Failure err
          else (case report of
                  None \<Rightarrow> Success (JArr []) 0
                | Some (Parsed eslint_data) \<Rightarrow>
                    (case iterate (Returned eslint_data)
                            (\<lambda>file_result. one (bind (py_get file_result ''messages'' (JArr []))
                                                    py_len)) of
                       (ns, None) \<Rightarrow> Success eslint_data (sum_list ns)
                     | (ns, Some e) \<Rightarrow> Failure (exn_text e))
                | Some _ \<Rightarrow> Failure ''Expecting value''))"

definition sa_run_semgrep :: "process \<Rightarrow> tool_output option \<Rightarrow> tool_run" where
  "sa_run_semgrep p report =
     (case p of
        NotFound \<Rightarrow> Failure ''semgrep not found''
      | TimedOut \<Rightarrow> Failure ''Scan timed out''
      | Exited returncode out err \<Rightarrow>
          if returncode \<noteq> 0 \<and> returncode \<noteq> 1 then Failure err
          else (case report of
                  None \<Rightarrow> Success (JArr []) 0
                | Some (Parsed semgrep_data) \<Rightarrow>
                    (case bind (py_get semgrep_data ''results'' (JArr []))
                            (\<lambda>rs. bind (py_len rs) (\<lambda>n. Returned (rs, n))) of
                       Raised e \<Rightarrow> Failure (exn_text e)
                     | Returned (rs, n) \<Rightarrow> Success rs n)
                | Some _ \<Rightarrow> Failure ''Expecting value''))"

text \<open>
  \<open>_run_lizard\<close> reads Lizard's text table; \<open>rows\<close> stands for the rows that its table
  scan keeps.
\<close>

definition run_lizard :: "(tool_output \<Rightarrow> json list) \<Rightarrow> process \<Rightarrow> tool_run" where
  "run_lizard rows p =
     (case p of
        NotFound \<Rightarrow> Failure ''lizard not found''
      | TimedOut \<Rightarrow> Failure ''Analysis timed out''
      | Exited returncode out err \<Rightarrow>
          if returncode \<notin> {0, 1} then Failure err
          else Success (JArr (rows out)) (length (rows out)))"

text \<open>\<open>_generate_sarif_report\<close> of these agents: one run per tool that succeeded.\<close>

definition sarif_runs :: "(string \<times> tool_run) list \<Rightarrow> (string \<times> json) list" where
  "sarif_runs findings =
     concat (map (\<lambda>(tool_name, r). case r of Failure _ \<Rightarrow> [] | Success fs _ \<Rightarrow> [(tool_name, fs)])
                 findings)"

text \<open>\<open>QualityAgent._severity_to_level\<close>; a Python \<open>bool\<close> is an \<open>int\<close>.\<close>

definition int_severity_to_level :: "int \<Rightarrow> string" where
  "int_severity_to_level n = (if n = 2 then ''error'' else if n = 1 then ''warning'' else ''note'')"

definition severity_to_level :: "json \<Rightarrow> string" where
  "severity_to_level sev =
     (case sev of
        JInt n \<Rightarrow> int_severity_to_level n
      | JBool b \<Rightarrow> int_severity_to_level (if b then 1 else 0)
      | JStr s \<Rightarrow>
          (if lower s \<in> {''error''} then ''error''
           else if lower s \<in> {''warning'', ''warn''} then ''warning''
           else ''note'')
      | _ \<Rightarrow> ''note'')"

text \<open>\<open>SecurityAgent._severity_to_level\<close>.\<close>

definition sa_severity_to_level :: "json \<Rightarrow> string result" where
  "sa_severity_to_level sev =
     (case sev of
        JStr s \<Rightarrow>
          Returned (if upper s \<in> {''ERROR'', ''HIGH'', ''CRITICAL''} then ''error''
                    else if upper s \<in> {''WARNING'', ''MEDIUM''} then ''warning''
                    else ''note'')
      | _ \<Rightarrow> Raised AttributeError)"

section \<open>Reading the replies\<close>

definition outbox :: "'a client_scheme \<Rightarrow> ipc_message list" where
  "outbox st = (case socket st of None \<Rightarrow> [] | Some s \<Rightarrow> sent s)"

definition working :: "'a client_scheme \<Rightarrow> bool" where
  "working st = (is_connected st \<and> (case socket st of None \<Rightarrow> False | Some s \<Rightarrow> \<not> broken s))"

definition replies_to :: "'a client_scheme \<Rightarrow> string \<Rightarrow> ipc_message list" where
  "replies_to st tid = filter (\<lambda>m. msg_type m = ''task'' \<and> msg_id m = tid) (outbox st)"

definition reply_field :: "string \<Rightarrow> ipc_message \<Rightarrow> json" where
  "reply_field k m = (case msg_data m of Some (JObj d) \<Rightarrow> dict_get d k JNull | _ \<Rightarrow> JNull)"

definition result_field :: "string \<Rightarrow> ipc_message \<Rightarrow> json" where
  "result_field k m =
     (case reply_field ''results'' m of JObj d \<Rightarrow> dict_get d k JNull | _ \<Rightarrow> JNull)"

section \<open>The normalized severities\<close>

definition normalized :: "string \<Rightarrow> bool" where
  "normalized s = (s \<in> {''error'', ''warning'', ''info''})"

section \<open>Sample inputs\<close>

definition sample_data :: task_data where
  "sample_data =
     \<lparr> scope = Some [''a.py''], task_context = None, output_file = None,
       config = None, mode = None, timeout_seconds = None \<rparr>"

definition sample_task :: active_task where
  "sample_task = \<lparr> at_task_data = sample_data, at_start_time = 0, at_timeout = 300 \<rparr>"


definition online :: "'a client_scheme \<Rightarrow> 'a client_scheme" where
  "online st = st\<lparr>socket := Some \<lparr>broken = False, sent = []\<rparr>, is_connected := True\<rparr>"

definition local_fs :: file_system where
  "local_fs =
     \<lparr> fs_cwd = ''/repo'',
       fs_exists = (\<lambda>p. p \<in> {''a.py'', ''/repo/a.py''}),
       fs_isfile = (\<lambda>p. p \<in> {''a.py'', ''/repo/a.py''}),
       fs_isdir = (\<lambda>p. False),
       fs_size = (\<lambda>p. 100),
       fs_walk = (\<lambda>p. []),
       path_suffix = (\<lambda>p. if endswith p ''.py'' then ''.py'' else []),
       path_str = (\<lambda>p. p) \<rparr>"

definition steady_clock :: "rat \<Rightarrow> clock" where
  "steady_clock t = \<lparr> t_gate = t, t_start = t, t_end = t + 1, t_success = t + 1 \<rparr>"

definition quiet_env :: "rat \<Rightarrow> quality_env" where
  "quiet_env t =
     \<lparr> q_clock = steady_clock t, q_fs = local_fs, q_run = (\<lambda>files. Completed [] [''ruff'']) \<rparr>"

definition running_client :: client where
  "running_client = (init_client ''quality'')\<lparr>is_running := True\<rparr>"

definition refused :: loop_env where
  "refused = \<lparr> connect_ok = False, dropped = False, stopped = False \<rparr>"

definition accepted :: loop_env where
  "accepted = \<lparr> connect_ok = True, dropped = False, stopped = False \<rparr>"


definition cooling_agent :: quality_agent where
  "cooling_agent = (online (init_quality_agent 0))\<lparr>consecutive_errors := 10\<rparr>"


definition cooling_security_agent :: security_agent where
  "cooling_security_agent = (online (init_security_agent 0))\<lparr>consecutive_errors := 10\<rparr>"

definition quiet_security_env :: "rat \<Rightarrow> security_env" where
  "quiet_security_env t =
     \<lparr> s_clock = steady_clock t, s_fs = local_fs, semgrep_proc = NotFound,
       gitleaks_proc = NotFound, gitleaks_report = None, dep_tools_used = [],
       scan_time = 1, relpath = (\<lambda>p start. Returned ''a.py''), format_2f = (\<lambda>r. ''1.00'') \<rparr>"




definition semgrep_info_runs :: "json list" where
  "semgrep_info_runs =
     [JObj [(''results'', JArr
       [JObj [(''rule_id'', JStr ''rules.eval''), (''message'', JStr ''eval used''),
              (''path'', JStr ''a.py''),
              (''start'', JObj [(''line'', JInt 3), (''col'', JInt 1)]),
              (''metadata'', JObj [(''severity'', JStr ''INFO'')])]])]]"

definition semgrep_info_output :: json where
  "semgrep_info_output = JObj [(''results'', JArr semgrep_info_runs)]"

definition ruff_unlocated :: json where
  "ruff_unlocated =
     JArr [JObj [(''code'', JStr ''F401''), (''message'', JStr ''unused import''),
                 (''filename'', JStr ''a.py'')]]"

definition ruff_backwards :: json where
  "ruff_backwards =
     JArr [JObj [(''code'', JStr ''E501''), (''message'', JStr ''line too long''),
                 (''filename'', JStr ''a.py''),
                 (''location'', JObj [(''row'', JInt 5), (''column'', JInt 1)]),
                 (''end_location'', JObj [(''row'', JInt 3), (''column'', JInt 1)])]]"

definition semgrep_unlocated :: tool_output where
  "semgrep_unlocated =
     Parsed (JObj [(''results'', JArr
       [JObj [(''results'', JArr
         [JObj [(''rule_id'', JStr ''rules.eval''), (''message'', JStr ''eval used''),
                (''path'', JStr ''a.py'')]])]])])"

definition fresh_security_agent :: security_agent where
  "fresh_security_agent = online (init_security_agent 0)"

definition first_task :: task_message where
  "first_task = \<lparr> task_id = ''t1'', task_payload = Some sample_data \<rparr>"

definition empty_scope_task :: task_message where
  "empty_scope_task = \<lparr> task_id = ''t2'', task_payload = Some (sample_data\<lparr>scope := Some []\<rparr>) \<rparr>"

definition after_first_task :: security_agent where
  "after_first_task =
     snd (handle_task_message (s_handle_task (quiet_security_env 0)) fresh_security_agent 0 first_task)"

definition after_second_task :: security_agent where
  "after_second_task =
     snd (handle_task_message (s_handle_task (quiet_security_env 10)) after_first_task 10
            empty_scope_task)"

section \<open>Properties\<close>

subsection \<open>Severity breakdown\<close>

lemma bump3:
  "bump [(''error'', a), (''warning'', b), (''info'', c)] k =
     [(''error'', if k = ''error'' then a + 1 else a),
      (''warning'', if k = ''warning'' then b + 1 else b),
      (''info'', if k = ''info'' then c + 1 else c)]"
  by (simp add: bump_def)

lemma fold_bump3:
  "fold (\<lambda>finding breakdown. bump breakdown (severity finding)) fs
      [(''error'', a), (''warning'', b), (''info'', c)] =
     [(''error'', a + length (filter (\<lambda>f. severity f = ''error'') fs)),
      (''warning'', b + length (filter (\<lambda>f. severity f = ''warning'') fs)),
      (''info'', c + length (filter (\<lambda>f. severity f = ''info'') fs))]"
proof (induction fs arbitrary: a b c)
  case Nil
  show ?case by simp
next
  case (Cons f fs)
  show ?case by (simp only: fold_simps bump3 Cons.IH) simp
qed

lemma severity_breakdown_counts:
  "get_severity_breakdown fs =
     [(''error'', length (filter (\<lambda>f. severity f = ''error'') fs)),
      (''warning'', length (filter (\<lambda>f. severity f = ''warning'') fs)),
      (''info'', length (filter (\<lambda>f. severity f = ''info'') fs))]"
  unfolding get_severity_breakdown_def by (simp add: fold_bump3)

lemma three_way_count:
  "length (filter (\<lambda>f. severity f = ''error'') fs)
     + length (filter (\<lambda>f. severity f = ''warning'') fs)
     + length (filter (\<lambda>f. severity f = ''info'') fs)
   = length (filter (\<lambda>f. severity f \<in> {''error'', ''warning'', ''info''}) fs)"
  by (induction fs) auto

lemma filter_all_iff: "length (filter P xs) = length xs \<longleftrightarrow> (\<forall>x \<in> set xs. P x)"
proof (induction xs)
  case Nil
  show ?case by simp
next
  case (Cons x xs)
  have "length (filter P xs) \<noteq> Suc (length xs)"
    using length_filter_le [of P xs] by linarith
  then show ?case using Cons.IH by auto
qed

text \<open>
  Claim C10. The severity breakdown counts exactly the findings whose severity is
  \<open>error\<close>, \<open>warning\<close> or \<open>info\<close>: its keys are these three, its counters add up to
  the number of such findings, hence to at most the number of findings, and to exactly
  that number if and only if every finding's severity is one of the three. Converting
  plugin issues keeps each plugin's severity string, so issues rated \<open>critical\<close>,
  \<open>high\<close>, \<open>medium\<close> or \<open>low\<close> land in no bucket.
\<close>

theorem severity_breakdown_counts_known_severities:
  "map fst (get_severity_breakdown fs) = [''error'', ''warning'', ''info'']
   \<and> sum_list (map snd (get_severity_breakdown fs))
       = length (filter (\<lambda>f. severity f \<in> {''error'', ''warning'', ''info''}) fs)
   \<and> sum_list (map snd (get_severity_breakdown fs)) \<le> length fs
   \<and> (sum_list (map snd (get_severity_breakdown fs)) = length fs
        \<longleftrightarrow> (\<forall>f \<in> set fs. severity f \<in> {''error'', ''warning'', ''info''}))
   \<and> map severity (convert_plugin_issues issues) = map qi_severity issues
   \<and> ((\<forall>i \<in> set issues. qi_severity i \<in> {''critical'', ''high'', ''medium'', ''low''})
        \<longrightarrow> get_severity_breakdown (convert_plugin_issues issues)
              = [(''error'', 0), (''warning'', 0), (''info'', 0)])"
proof -
  have s: "sum_list (map snd (get_severity_breakdown fs))
       = length (filter (\<lambda>f. severity f \<in> {''error'', ''warning'', ''info''}) fs)"
    using three_way_count [of fs] by (simp add: severity_breakdown_counts)
  have sev: "map severity (convert_plugin_issues issues) = map qi_severity issues"
    by (simp add: convert_plugin_issues_def convert_plugin_issue_def)
  have none: "get_severity_breakdown (convert_plugin_issues issues)
              = [(''error'', 0), (''warning'', 0), (''info'', 0)]"
    if h: "\<forall>i \<in> set issues. qi_severity i \<in> {''critical'', ''high'', ''medium'', ''low''}"
  proof -
    have "filter (\<lambda>f. severity f = k) (convert_plugin_issues issues) = []"
      if "k \<in> {''error'', ''warning'', ''info''}" for k
      using h that by (auto simp: filter_empty_conv convert_plugin_issues_def convert_plugin_issue_def)
    then show ?thesis by (simp add: severity_breakdown_counts)
  qed
  show ?thesis
    using s sev none filter_all_iff [of "\<lambda>f. severity f \<in> {''error'', ''warning'', ''info''}" fs]
    by (simp add: severity_breakdown_counts)
qed

theorem severity_breakdown_counts_known_severities_witness:
  "(let issue = \<lparr> qi_file = ''a.yaml'', qi_rule_id = ''yaml-syntax'', qi_message = ''bad indent'',
                   qi_severity = ''high'', qi_start_line = 3, qi_start_column = None,
                   qi_end_line = None, qi_end_column = None, qi_data = [] \<rparr>;
        fs = [convert_plugin_issue issue, (convert_plugin_issue issue)\<lparr>severity := ''error''\<rparr>]
    in sum_list (map snd (get_severity_breakdown fs)) = 1 \<and> length fs = 2
       \<and> (\<exists>f \<in> set fs. severity f \<notin> {''error'', ''warning'', ''info''})
       \<and> (\<forall>i \<in> set [issue]. qi_severity i \<in> {''critical'', ''high'', ''medium'', ''low''})
       \<and> get_severity_breakdown (convert_plugin_issues [issue])
           = [(''error'', 0), (''warning'', 0), (''info'', 0)])"
  using severity_breakdown_counts_known_severities
          [of "[convert_plugin_issue \<lparr> qi_file = ''a.yaml'', qi_rule_id = ''yaml-syntax'', qi_message = ''bad indent'',
                   qi_severity = ''high'', qi_start_line = 3, qi_start_column = None,
                   qi_end_line = None, qi_end_column = None, qi_data = [] \<rparr>,
                (convert_plugin_issue \<lparr> qi_file = ''a.yaml'', qi_rule_id = ''yaml-syntax'', qi_message = ''bad indent'',
                   qi_severity = ''high'', qi_start_line = 3, qi_start_column = None,
                   qi_end_line = None, qi_end_column = None, qi_data = [] \<rparr>)\<lparr>severity := ''error''\<rparr>]"
              "[\<lparr> qi_file = ''a.yaml'', qi_rule_id = ''yaml-syntax'', qi_message = ''bad indent'',
                   qi_severity = ''high'', qi_start_line = 3, qi_start_column = None,
                   qi_end_line = None, qi_end_column = None, qi_data = [] \<rparr>]"]
  by (simp add: convert_plugin_issue_def Let_def)

subsection \<open>Task responses\<close>

lemma remove_active_gone: "\<not> dict_has (active_tasks (remove_active st tid)) tid"
  by (simp add: remove_active_def dict_has_def AList.delete_notin_dom)

lemma send_message_active: "active_tasks (snd (send_message st m)) = active_tasks st"
  by (simp add: send_message_def split: option.splits)

text \<open>
  Claim C9. When \<open>send_task_response\<close> is called with an id that is in \<open>active_tasks\<close>,
  the message is handed to \<open>send_message\<close> in a state from which the entry is already
  gone, the entry is absent afterwards whatever the send does, and when the client is not
  connected the call returns \<open>False\<close> and changes nothing but that entry.
\<close>

theorem send_task_response_removes_entry_first:
  assumes "dict_has (active_tasks st) tid"
  shows "send_task_response st tid status results d
           = send_message (st\<lparr>active_tasks := AList.delete tid (active_tasks st)\<rparr>)
               (task_response st tid status results d)
         \<and> \<not> dict_has (AList.delete tid (active_tasks st)) tid
         \<and> active_tasks (snd (send_task_response st tid status results d))
             = AList.delete tid (active_tasks st)
         \<and> (\<not> is_connected st \<longrightarrow>
               send_task_response st tid status results d
                 = (Returned False, st\<lparr>active_tasks := AList.delete tid (active_tasks st)\<rparr>))"
proof -
  let ?st1 = "st\<lparr>active_tasks := AList.delete tid (active_tasks st)\<rparr>"
  let ?m = "task_response st tid status results d"
  have r: "remove_active st tid = ?st1"
    using assms by (simp add: remove_active_def)
  have a: "send_task_response st tid status results d = send_message ?st1 ?m"
    by (simp add: send_task_response_def r)
  have b: "\<not> dict_has (AList.delete tid (active_tasks st)) tid"
    by (simp add: dict_has_def AList.delete_notin_dom)
  have c: "active_tasks (snd (send_task_response st tid status results d))
             = AList.delete tid (active_tasks st)"
    by (simp add: a send_message_active)
  have d: "send_message ?st1 ?m = (Returned False, ?st1)" if "\<not> is_connected st"
    using that by (simp add: send_message_def)
  show ?thesis using a b c d by simp
qed

theorem send_task_response_removes_entry_first_witness:
  "dict_has (active_tasks ((init_client ''quality'')\<lparr>active_tasks := [(''t1'', sample_task)]\<rparr>)) ''t1''
   \<and> send_task_response ((init_client ''quality'')\<lparr>active_tasks := [(''t1'', sample_task)]\<rparr>)
        ''t1'' ''done'' (JObj []) None
      = (Returned False, init_client ''quality'')"
proof -
  let ?st = "(init_client ''quality'')\<lparr>active_tasks := [(''t1'', sample_task)]\<rparr>"
  have h: "dict_has (active_tasks ?st) ''t1''"
    by (simp add: dict_has_def)
  have n: "\<not> is_connected ?st"
    by (simp add: init_client_def)
  have "send_task_response ?st ''t1'' ''done'' (JObj []) None
          = (Returned False, ?st\<lparr>active_tasks := AList.delete ''t1'' (active_tasks ?st)\<rparr>)"
    using send_task_response_removes_entry_first [OF h, of "''done''" "JObj []" None] n
    by blast
  then show ?thesis using h by (simp add: init_client_def)
qed

subsection \<open>Reconnecting\<close>

lemma connect_fails:
  "connect st False = (False, st\<lparr>socket := Some \<lparr>broken = True, sent = []\<rparr>, is_connected := False\<rparr>)"
  by (simp add: connect_def)

lemma connect_succeeds_fst: "fst (connect st True) = True"
  by (simp add: connect_def Let_def)

lemma main_loop_failed_attempt:
  assumes "is_running st" "\<not> is_connected st" "a < max_reconnect_attempts st" "\<not> connect_ok e"
  shows "main_loop st a sl (e # es) =
           main_loop (during_sleep e (st\<lparr>socket := Some \<lparr>broken = True, sent = []\<rparr>,
                                          is_connected := False\<rparr>))
             (a + 1) (sl @ [min (reconnect_interval st * 2 ^ a) 60]) es"
  using assms by (simp add: connect_fails Let_def)

lemma main_loop_failed_attempts:
  assumes "is_running st" "\<not> is_connected st"
    and "a + length fails \<le> max_reconnect_attempts st"
    and "\<forall>e \<in> set fails. \<not> connect_ok e \<and> \<not> stopped e"
  shows "\<exists>st'. main_loop st a sl (fails @ rest) =
                  main_loop st' (a + length fails)
                    (sl @ map (\<lambda>k. min (reconnect_interval st * 2 ^ k) 60) [a ..< a + length fails])
                    rest
               \<and> is_running st' \<and> \<not> is_connected st'
               \<and> reconnect_interval st' = reconnect_interval st
               \<and> max_reconnect_attempts st' = max_reconnect_attempts st"
  using assms
proof (induction fails arbitrary: st a sl)
  case Nil
  then show ?case by auto
next
  case (Cons e fails)
  let ?st1 = "during_sleep e (st\<lparr>socket := Some \<lparr>broken = True, sent = []\<rparr>,
                                    is_connected := False\<rparr>)"
  have e: "\<not> connect_ok e" "\<not> stopped e" using Cons.prems(4) by auto
  have step: "main_loop st a sl ((e # fails) @ rest) =
                main_loop ?st1 (a + 1) (sl @ [min (reconnect_interval st * 2 ^ a) 60]) (fails @ rest)"
    using main_loop_failed_attempt [of st a e sl "fails @ rest"] Cons.prems e by simp
  have p: "is_running ?st1" "\<not> is_connected ?st1"
    "reconnect_interval ?st1 = reconnect_interval st"
    "max_reconnect_attempts ?st1 = max_reconnect_attempts st"
    using Cons.prems(1) e by (simp_all add: during_sleep_def)
  have "(a + 1) + length fails \<le> max_reconnect_attempts ?st1"
    using Cons.prems(3) p by simp
  moreover have "\<forall>e \<in> set fails. \<not> connect_ok e \<and> \<not> stopped e"
    using Cons.prems(4) by simp
  ultimately obtain st' where
    st': "main_loop ?st1 (a + 1) (sl @ [min (reconnect_interval st * 2 ^ a) 60]) (fails @ rest) =
            main_loop st' ((a + 1) + length fails)
              ((sl @ [min (reconnect_interval st * 2 ^ a) 60])
                 @ map (\<lambda>k. min (reconnect_interval ?st1 * 2 ^ k) 60) [a + 1 ..< (a + 1) + length fails])
              rest"
      "is_running st'" "\<not> is_connected st'"
      "reconnect_interval st' = reconnect_interval ?st1"
      "max_reconnect_attempts st' = max_reconnect_attempts ?st1"
    using Cons.IH [of ?st1 "a + 1" "sl @ [min (reconnect_interval st * 2 ^ a) 60]"] p by blast
  have args: "(a + 1) + length fails = a + length (e # fails)"
    by simp
  have lst: "(sl @ [min (reconnect_interval st * 2 ^ a) 60])
               @ map (\<lambda>k. min (reconnect_interval ?st1 * 2 ^ k) 60) [a + 1 ..< (a + 1) + length fails]
             = sl @ map (\<lambda>k. min (reconnect_interval st * 2 ^ k) 60) [a ..< a + length (e # fails)]"
    by (simp add: p(3) upt_conv_Cons del: upt_Suc)
  have "main_loop st a sl ((e # fails) @ rest) =
          main_loop st' (a + length (e # fails))
            (sl @ map (\<lambda>k. min (reconnect_interval st * 2 ^ k) 60) [a ..< a + length (e # fails)])
            rest"
    by (simp only: step st'(1) lst, simp only: args)
  moreover have "reconnect_interval st' = reconnect_interval st"
    "max_reconnect_attempts st' = max_reconnect_attempts st"
    using st'(4,5) p(3,4) by simp_all
  ultimately show ?case using st'(2,3) by blast
qed

text \<open>
  Claim C4. Start the main loop running and disconnected, with the constructor's
  \<open>reconnect_interval = 10\<close> and \<open>max_reconnect_attempts = 30\<close>, and let every
  connection attempt fail. Then the sleeps between the attempts are
  \<open>min (10 * 2 ^ k) 60\<close> for \<open>k = 0, 1, 2, ...\<close>, the loop is still running during the
  first thirty attempts, and after thirty failed attempts the next iteration leaves the
  loop without a further attempt or sleep. A successful \<open>connect()\<close> sets the attempt
  counter back to zero.
\<close>

theorem main_loop_backoff:
  assumes cfg: "reconnect_interval st = 10" "max_reconnect_attempts st = 30"
    and st: "is_running st" "\<not> is_connected st"
    and fails: "\<forall>e \<in> set fails. \<not> connect_ok e \<and> \<not> stopped e"
  shows "(length fails \<le> 30 \<longrightarrow>
            fst (snd (main_loop st 0 [] fails))
              = map (\<lambda>k. min (10 * 2 ^ k) 60) [0 ..< length fails]
            \<and> \<not> fst (main_loop st 0 [] fails))
         \<and> (length fails = 30 \<longrightarrow>
              fst (main_loop st 0 [] (fails @ e # es))
              \<and> fst (snd (main_loop st 0 [] (fails @ e # es)))
                  = map (\<lambda>k. min (10 * 2 ^ k) 60) [0 ..< 30])
         \<and> (a < 30 \<and> connect_ok e \<longrightarrow>
              main_loop st a sl (e # es)
                = main_loop (during_sleep e (snd (connect st True))) 0 (sl @ [1]) es)"
proof -
  have A: "fst (snd (main_loop st 0 [] fails))
              = map (\<lambda>k. min (10 * 2 ^ k) 60) [0 ..< length fails]
            \<and> \<not> fst (main_loop st 0 [] fails)" if "length fails \<le> 30"
  proof -
    have le: "0 + length fails \<le> max_reconnect_attempts st"
      using that cfg by simp
    from main_loop_failed_attempts [OF st le fails, of "[]" "[]"]
    obtain st' where "main_loop st 0 [] (fails @ []) =
        main_loop st' (0 + length fails)
          ([] @ map (\<lambda>k. min (reconnect_interval st * 2 ^ k) 60) [0 ..< 0 + length fails]) []"
      by blast
    then show ?thesis by (simp add: cfg)
  qed
  have B: "fst (main_loop st 0 [] (fails @ e # es))
              \<and> fst (snd (main_loop st 0 [] (fails @ e # es)))
                  = map (\<lambda>k. min (10 * 2 ^ k) 60) [0 ..< 30]" if "length fails = 30"
  proof -
    have le: "0 + length fails \<le> max_reconnect_attempts st"
      using that cfg by simp
    from main_loop_failed_attempts [OF st le fails, of "[]" "e # es"]
    obtain st' where s: "main_loop st 0 [] (fails @ e # es) =
        main_loop st' (0 + length fails)
          ([] @ map (\<lambda>k. min (reconnect_interval st * 2 ^ k) 60) [0 ..< 0 + length fails]) (e # es)"
      "is_running st'" "\<not> is_connected st'" "max_reconnect_attempts st' = max_reconnect_attempts st"
      by blast
    show ?thesis using s(2-4) that by (simp add: s(1) cfg del: upt_Suc)
  qed
  have C: "main_loop st a sl (e # es)
                = main_loop (during_sleep e (snd (connect st True))) 0 (sl @ [1]) es"
    if "a < 30" "connect_ok e"
    using that st cfg connect_succeeds_fst [of st]
    by (cases "connect st True") (simp add: Let_def)
  show ?thesis using A B C by blast
qed

theorem main_loop_backoff_witness:
  "reconnect_interval running_client = 10 \<and> max_reconnect_attempts running_client = 30
   \<and> is_running running_client \<and> \<not> is_connected running_client
   \<and> \<not> connect_ok refused \<and> \<not> stopped refused \<and> connect_ok accepted
   \<and> fst (snd (main_loop running_client 0 [] (replicate 30 refused)))
        = map (\<lambda>k. min (10 * 2 ^ k) 60) [0 ..< 30]
   \<and> \<not> fst (main_loop running_client 0 [] (replicate 30 refused))
   \<and> fst (main_loop running_client 0 [] (replicate 30 refused @ [accepted]))
   \<and> main_loop running_client 3 [] [accepted]
        = main_loop (during_sleep accepted (snd (connect running_client True))) 0 [1] []"
proof -
  have cfg: "reconnect_interval running_client = 10" "max_reconnect_attempts running_client = 30"
    and st: "is_running running_client" "\<not> is_connected running_client"
    by (simp_all add: running_client_def init_client_def)
  have fails: "\<forall>e \<in> set (replicate 30 refused). \<not> connect_ok e \<and> \<not> stopped e"
    by (simp add: refused_def)
  have ok: "connect_ok accepted"
    by (simp add: accepted_def)
  show ?thesis
    using main_loop_backoff [OF cfg st fails, of accepted "[]" 3 "[]"] cfg st fails ok
    by (simp add: refused_def del: main_loop.simps)
qed

subsection \<open>Admission\<close>

lemmas agent_unfold =
  online_def init_quality_agent_def init_security_agent_def init_client_def
  agent.extend_def client.extend_def agent.fields_def quality_agent.fields_def
  security_agent.fields_def agent.defs client.defs quality_agent.defs security_agent.defs


lemma cooling_agent_facts:
  "working cooling_agent" "active_tasks cooling_agent = []" "max_active_tasks cooling_agent = 10"
  "outbox cooling_agent = []" "agent_name cooling_agent = ''quality''"
  "consecutive_errors cooling_agent = 10" "max_consecutive_errors cooling_agent = 10"
  "last_successful_run cooling_agent = 0" "error_threshold_cooldown cooling_agent = 300"
  by (simp_all add: cooling_agent_def agent_unfold working_def outbox_def)


lemma quiet_env_gate: "t_gate (q_clock (quiet_env t)) = t"
  by (simp add: quiet_env_def steady_clock_def)


lemma remove_active_tasks: "active_tasks (remove_active st tid) = AList.delete tid (active_tasks st)"
  by (simp add: remove_active_def dict_has_def)

lemma working_send_message:
  assumes "working st"
  shows "\<exists>st'. send_message st m = (Returned True, st')
           \<and> outbox st' = outbox st @ [fill_agent st m]
           \<and> active_tasks st' = active_tasks st \<and> working st'
           \<and> agent_name st' = agent_name st \<and> max_active_tasks st' = max_active_tasks st
           \<and> client.more st' = client.more st"
  using assms
  by (auto simp: working_def send_message_def outbox_def split: option.splits)

lemma remove_active_keeps:
  "working (remove_active st tid) = working st"
  "outbox (remove_active st tid) = outbox st"
  "agent_name (remove_active st tid) = agent_name st"
  "max_active_tasks (remove_active st tid) = max_active_tasks st"
  "client.more (remove_active st tid) = client.more st"
  by (simp_all add: remove_active_def working_def outbox_def)

lemma fill_agent_name: "agent_name st' = agent_name st \<Longrightarrow> fill_agent st' m = fill_agent st m"
  by (simp add: fill_agent_def)

lemma working_send_task_response:
  assumes "working st"
  shows "\<exists>st'. send_task_response st tid status res d = (Returned True, st')
           \<and> outbox st' = outbox st @ [fill_agent st (task_response st tid status res d)]
           \<and> active_tasks st' = AList.delete tid (active_tasks st) \<and> working st'
           \<and> agent_name st' = agent_name st \<and> max_active_tasks st' = max_active_tasks st
           \<and> client.more st' = client.more st"
proof -
  have w: "working (remove_active st tid)"
    using assms by (simp add: remove_active_keeps)
  from working_send_message [OF w, of "task_response st tid status res d"]
  show ?thesis
    by (auto simp: send_task_response_def remove_active_keeps remove_active_tasks
          fill_agent_name [of "remove_active st tid" st])
qed












subsection \<open>Cooldown\<close>

lemma cooldown_remaining_sign:
  assumes "in_cooldown st now"
  shows "0 \<le> cooldown_remaining st now"
    and "0 < cooldown_remaining st now
           \<longleftrightarrow> now - last_successful_run st \<le> of_int (error_threshold_cooldown st) - 1"
proof -
  let ?x = "of_int (error_threshold_cooldown st) - time_since_last_success st now"
  have pos: "0 < ?x"
    using assms by (simp add: in_cooldown_def)
  then have eq: "cooldown_remaining st now = \<lfloor>?x\<rfloor>"
    by (simp add: cooldown_remaining_def py_int_def)
  show "0 \<le> cooldown_remaining st now"
    using pos by (simp add: eq)
  have "0 < \<lfloor>?x\<rfloor> \<longleftrightarrow> 1 \<le> ?x"
    by (simp add: zero_less_floor)
  then show "0 < cooldown_remaining st now
           \<longleftrightarrow> now - last_successful_run st \<le> of_int (error_threshold_cooldown st) - 1"
    by (auto simp: eq time_since_last_success_def)
qed

lemma cooldown_reply_fields:
  "reply_field ''status'' (fill_agent st (task_response st tid ''failed'' (cooldown_results st now) d))
     = JStr ''failed''"
  "result_field ''cooldown_remaining''
     (fill_agent st (task_response st tid ''failed'' (cooldown_results st now) d))
     = JInt (cooldown_remaining st now)"
  by (simp_all add: reply_field_def result_field_def fill_agent_def task_response_def dict_get_def
        cooldown_results_def)

lemma q_cooldown_reply:
  assumes "working st" and "in_cooldown st (t_gate (q_clock env))"
  shows "\<exists>st'. q_handle_task env st tid td = (Returned (), st')
           \<and> outbox st' = outbox st @ [fill_agent st (task_response st tid ''failed''
                                           (cooldown_results st (t_gate (q_clock env))) None)]
           \<and> client.more st' = client.more st"
proof -
  from working_send_task_response [OF assms(1), of tid "''failed''"
          "cooldown_results st (t_gate (q_clock env))" None]
  show ?thesis using assms(2) by (auto simp: q_handle_task_def discard_def)
qed

lemma s_cooldown_reply:
  assumes "working st" and "in_cooldown st (t_gate (s_clock env))"
  shows "\<exists>st'. s_handle_task env st tid td = (Returned (), st')
           \<and> outbox st' = outbox st @ [fill_agent st (task_response st tid ''failed''
                                           (cooldown_results st (t_gate (s_clock env))) None)]
           \<and> client.more st' = client.more st"
proof -
  from working_send_task_response [OF assms(1), of tid "''failed''"
          "cooldown_results st (t_gate (s_clock env))" None]
  show ?thesis using assms(2) by (auto simp: s_handle_task_def discard_def)
qed

text \<open>
  Claim C3, as the code has it. The cooldown is not started when the error counter reaches
  its maximum: a task is refused exactly when the counter is at least
  \<open>max_consecutive_errors\<close> and less than \<open>error_threshold_cooldown\<close> seconds have
  passed since the last successful run. A refused task gets \<open>failed\<close> with
  \<open>cooldown_remaining\<close>, the whole seconds that are left: never negative, and positive
  unless less than one second is left. Nothing else of the agent changes (no analysis
  runs). Any other task goes to the analysis. This holds for both agents.
\<close>

theorem cooldown_counts_from_last_success:
  "(in_cooldown st now \<longleftrightarrow>
       consecutive_errors st \<ge> max_consecutive_errors st
       \<and> now - last_successful_run st < of_int (error_threshold_cooldown st))
   \<and> (in_cooldown st now \<longrightarrow>
         0 \<le> cooldown_remaining st now
         \<and> (0 < cooldown_remaining st now
              \<longleftrightarrow> now - last_successful_run st \<le> of_int (error_threshold_cooldown st) - 1))
   \<and> (working qa \<and> in_cooldown qa (t_gate (q_clock qenv)) \<longrightarrow>
         (\<exists>st'. q_handle_task qenv qa tid td = (Returned (), st')
            \<and> outbox st' = outbox qa @ [fill_agent qa (task_response qa tid ''failed''
                                           (cooldown_results qa (t_gate (q_clock qenv))) None)]
            \<and> client.more st' = client.more qa))
   \<and> (working sa \<and> in_cooldown sa (t_gate (s_clock senv)) \<longrightarrow>
         (\<exists>st'. s_handle_task senv sa tid td = (Returned (), st')
            \<and> outbox st' = outbox sa @ [fill_agent sa (task_response sa tid ''failed''
                                           (cooldown_results sa (t_gate (s_clock senv))) None)]
            \<and> client.more st' = client.more sa))
   \<and> (\<not> in_cooldown qa (t_gate (q_clock qenv)) \<longrightarrow>
         q_handle_task qenv qa tid td = q_analyse qenv qa tid td)
   \<and> (\<not> in_cooldown sa (t_gate (s_clock senv)) \<longrightarrow>
         s_handle_task senv sa tid td = s_analyse senv sa tid td)"
  using cooldown_remaining_sign [of st now] q_cooldown_reply [of qa qenv tid td]
    s_cooldown_reply [of sa senv tid td]
  by (simp add: in_cooldown_def time_since_last_success_def q_handle_task_def s_handle_task_def)

lemma cooling_security_agent_facts:
  "working cooling_security_agent" "outbox cooling_security_agent = []"
  "consecutive_errors cooling_security_agent = 10" "max_consecutive_errors cooling_security_agent = 10"
  "last_successful_run cooling_security_agent = 0" "error_threshold_cooldown cooling_security_agent = 300"
  by (simp_all add: cooling_security_agent_def agent_unfold working_def outbox_def)

lemma quiet_security_env_gate: "t_gate (s_clock (quiet_security_env t)) = t"
  by (simp add: quiet_security_env_def steady_clock_def)

theorem cooldown_counts_from_last_success_witness:
  "in_cooldown cooling_agent 100 \<and> cooldown_remaining cooling_agent 100 = 200
   \<and> working cooling_agent \<and> working cooling_security_agent
   \<and> in_cooldown cooling_security_agent 100
   \<and> map (reply_field ''status'')
        (outbox (snd (q_handle_task (quiet_env 100) cooling_agent ''t1'' sample_data)))
      = [JStr ''failed'']
   \<and> map (result_field ''cooldown_remaining'')
        (outbox (snd (s_handle_task (quiet_security_env 100) cooling_security_agent ''t1'' sample_data)))
      = [JInt 200]
   \<and> \<not> in_cooldown cooling_agent 400 \<and> \<not> in_cooldown cooling_security_agent 400
   \<and> q_handle_task (quiet_env 400) cooling_agent ''t1'' sample_data
      = q_analyse (quiet_env 400) cooling_agent ''t1'' sample_data
   \<and> s_handle_task (quiet_security_env 400) cooling_security_agent ''t1'' sample_data
      = s_analyse (quiet_security_env 400) cooling_security_agent ''t1'' sample_data"
proof -
  have q: "in_cooldown cooling_agent 100" "\<not> in_cooldown cooling_agent 400"
    by (simp_all add: in_cooldown_def time_since_last_success_def cooling_agent_facts)
  have s: "in_cooldown cooling_security_agent 100" "\<not> in_cooldown cooling_security_agent 400"
    by (simp_all add: in_cooldown_def time_since_last_success_def cooling_security_agent_facts)
  have r: "cooldown_remaining cooling_agent 100 = 200"
    "cooldown_remaining cooling_security_agent 100 = 200"
    by (simp_all add: cooldown_remaining_def time_since_last_success_def py_int_def
          cooling_agent_facts cooling_security_agent_facts)
  note in100 = cooldown_counts_from_last_success
      [of cooling_agent 100 cooling_agent "quiet_env 100" "''t1''" sample_data
          cooling_security_agent "quiet_security_env 100"]
  note in400 = cooldown_counts_from_last_success
      [of cooling_agent 400 cooling_agent "quiet_env 400" "''t1''" sample_data
          cooling_security_agent "quiet_security_env 400"]
  obtain st' where a:
    "q_handle_task (quiet_env 100) cooling_agent ''t1'' sample_data = (Returned (), st')"
    "outbox st' = outbox cooling_agent @ [fill_agent cooling_agent (task_response cooling_agent ''t1''
        ''failed'' (cooldown_results cooling_agent (t_gate (q_clock (quiet_env 100)))) None)]"
    using in100 q(1) cooling_agent_facts(1) by (auto simp: quiet_env_gate)
  obtain st'' where b:
    "s_handle_task (quiet_security_env 100) cooling_security_agent ''t1'' sample_data = (Returned (), st'')"
    "outbox st'' = outbox cooling_security_agent @ [fill_agent cooling_security_agent
        (task_response cooling_security_agent ''t1'' ''failed''
           (cooldown_results cooling_security_agent (t_gate (s_clock (quiet_security_env 100)))) None)]"
    using in100 s(1) cooling_security_agent_facts(1) by (auto simp: quiet_security_env_gate)
  have c: "q_handle_task (quiet_env 400) cooling_agent ''t1'' sample_data
      = q_analyse (quiet_env 400) cooling_agent ''t1'' sample_data"
    "s_handle_task (quiet_security_env 400) cooling_security_agent ''t1'' sample_data
      = s_analyse (quiet_security_env 400) cooling_security_agent ''t1'' sample_data"
    using in400 q(2) s(2) by (simp_all add: quiet_env_gate quiet_security_env_gate)
  show ?thesis
    using q s r c
    by (simp add: a b cooling_agent_facts cooling_security_agent_facts cooldown_reply_fields
          quiet_env_gate quiet_security_env_gate)
qed

lemma lower_py: "lower ''.py'' = ''.py''"
  by (simp add: lower_def lower_char_def)

lemma cooling_agent_config: "q_config cooling_agent = default_quality_config"
  by (simp add: cooling_agent_def agent_unfold)

lemma sample_files:
  "filter_quality_files local_fs ((q_config cooling_agent)\<lparr>analysis_mode := ''standard''\<rparr>) [''a.py'']
     = [''a.py'']"
  by (simp add: filter_quality_files_def local_fs_def endswith_def lower_py quality_extensions_def
        cooling_agent_config default_quality_config_def)

lemma late_task_done:
  "map (reply_field ''status'')
     (outbox (snd (q_handle_task (quiet_env 400) cooling_agent ''t1'' sample_data)))
   = [JStr ''done'']"
proof -
  have n: "\<not> in_cooldown cooling_agent 400"
    by (simp add: in_cooldown_def time_since_last_success_def cooling_agent_facts)
  let ?st1 = "cooling_agent\<lparr>q_config := (q_config cooling_agent)\<lparr>analysis_mode := ''standard''\<rparr>\<rparr>"
  have w: "working (?st1\<lparr>q_findings := []\<rparr>)"
    using cooling_agent_facts(1) by (simp add: working_def)
  from working_send_task_response [OF w, of "''t1''" "''done''"
         "done_results [] [''ruff''] 1 []" "Some (duration_ms (steady_clock 400))"]
  obtain st' where s: "send_task_response (?st1\<lparr>q_findings := []\<rparr>) ''t1'' ''done''
         (done_results [] [''ruff''] 1 []) (Some (duration_ms (steady_clock 400))) = (Returned True, st')"
    "outbox st' = outbox (?st1\<lparr>q_findings := []\<rparr>) @ [fill_agent (?st1\<lparr>q_findings := []\<rparr>)
        (task_response (?st1\<lparr>q_findings := []\<rparr>) ''t1'' ''done'' (done_results [] [''ruff''] 1 [])
           (Some (duration_ms (steady_clock 400))))]"
    by blast
  have o: "outbox (?st1\<lparr>q_findings := []\<rparr>) = []"
    using cooling_agent_facts(4) by (simp add: outbox_def)
  have "q_handle_task (quiet_env 400) cooling_agent ''t1'' sample_data
          = (Returned (), st'\<lparr>consecutive_errors := 0, last_successful_run := 401\<rparr>)"
    using n s(1)
    by (simp add: q_handle_task_def quiet_env_gate q_analyse_def Let_def sample_data_def
          override_def q_update_config_def sample_files quiet_env_def steady_clock_def)
  then show ?thesis
    using s(2) o
    by (simp add: outbox_def reply_field_def fill_agent_def task_response_def dict_get_def)
qed

text \<open>
  Against the claim as stated: half a second before the window closes the reply carries
  \<open>cooldown_remaining = 0\<close>; and an agent whose counter is at the maximum, but whose last
  success is 400 seconds old, is in no cooldown at all and analyses the task.
\<close>

theorem cooldown_counterexample:
  "in_cooldown cooling_agent (599 / 2)
   \<and> map (result_field ''cooldown_remaining'')
        (outbox (snd (q_handle_task (quiet_env (599 / 2)) cooling_agent ''t1'' sample_data)))
      = [JInt 0]
   \<and> consecutive_errors cooling_agent = max_consecutive_errors cooling_agent
   \<and> \<not> in_cooldown cooling_agent 400
   \<and> map (reply_field ''status'')
        (outbox (snd (q_handle_task (quiet_env 400) cooling_agent ''t1'' sample_data)))
      = [JStr ''done'']"
proof -
  have g: "in_cooldown cooling_agent (t_gate (q_clock (quiet_env (599 / 2))))"
    by (simp add: quiet_env_gate in_cooldown_def time_since_last_success_def cooling_agent_facts)
  have r: "cooldown_remaining cooling_agent (599 / 2) = 0"
    by (simp add: cooldown_remaining_def time_since_last_success_def cooling_agent_facts
          py_int_def floor_eq_iff)
  from q_cooldown_reply [OF cooling_agent_facts(1) g, of "''t1''" sample_data]
  have "map (result_field ''cooldown_remaining'')
        (outbox (snd (q_handle_task (quiet_env (599 / 2)) cooling_agent ''t1'' sample_data)))
      = [JInt 0]"
    by (auto simp: cooling_agent_facts cooldown_reply_fields quiet_env_gate r)
  moreover have "\<not> in_cooldown cooling_agent 400"
    by (simp add: in_cooldown_def time_since_last_success_def cooling_agent_facts)
  ultimately show ?thesis
    using g late_task_done by (simp add: quiet_env_gate cooling_agent_facts)
qed

subsection \<open>Replies per task\<close>



















subsection \<open>Levels and exit codes\<close>

lemma bind_Returned [simp]: "bind (Returned x) k = k x"
  by (simp add: bind_def)

lemma bind_Raised [simp]: "bind (Raised e) k = Raised e"
  by (simp add: bind_def)

lemma upper_INFO: "upper ''INFO'' = ''INFO''"
  by (simp add: upper_def upper_char_def)



lemma semgrep_info_parsed:
  "fst (parse_semgrep_json semgrep_info_output) =
     [\<lparr> sf_rule_id = JStr ''rules.eval'', sf_message = JStr ''eval used'', sf_severity = ''info'',
        sf_file_path = JStr ''a.py'', sf_line_number = JInt 3, sf_column_number = JInt 1,
        sf_cwe_id = JNull, sf_owasp_category = JNull, sf_confidence = JStr ''unknown'',
        sf_metadata = JObj [(''severity'', JStr ''INFO'')] \<rparr>]"
  by (simp add: parse_semgrep_json_def semgrep_info_output_def semgrep_info_runs_def iterate_def py_get_def py_iter_def
        dict_get_def one_def semgrep_finding_def convert_semgrep_severity_def dict_get_str_def
        upper_INFO)

lemma severity_to_level_range: "severity_to_level sev \<in> {''error'', ''warning'', ''note''}"
  by (cases sev) (auto simp: severity_to_level_def int_severity_to_level_def)

lemma sa_severity_to_level_range:
  "sa_severity_to_level sev = Returned l \<Longrightarrow> l \<in> {''error'', ''warning'', ''note''}"
  by (cases sev) (auto simp: sa_severity_to_level_def split: if_splits)


lemma ruff_unlocated_parsed:
  "fst (parse_ruff ruff_unlocated) =
     [\<lparr> tool = JStr ''ruff'', rule_id = JStr ''F401'', message = JStr ''unused import'',
        severity = ''error'', file_path = JStr ''a.py'', line_number = JInt 0,
        column_number = JInt 0, end_line_number = JNull, end_column_number = JNull,
        category = Some ''error-prone'', score = JNull, fix_suggestion = JNull,
        metadata = JObj [(''url'', JNull), (''fix'', JObj [])] \<rparr>]"
  by (simp add: parse_ruff_def ruff_unlocated_def iterate_def py_iter_def one_def ruff_finding_def
        py_get_def dict_get_def map_ruff_severity_def get_ruff_category_def startswith_def truthy_def)

lemma sa_semgrep_kept:
  "sa_run_semgrep (Exited 1 NoOutput []) (Some (Parsed semgrep_info_output))
     = Success (JArr semgrep_info_runs) 1"
proof -
  have "length semgrep_info_runs = 1"
    by (simp add: semgrep_info_runs_def)
  then show ?thesis
    by (simp add: sa_run_semgrep_def semgrep_info_output_def py_get_def dict_get_def py_len_def)
qed

text \<open>
  Claim C7 at a failing input. Semgrep exits with code 1 and prints a result. The branch
  of \<open>_run_semgrep\<close> in \<open>src/security_agent.py\<close> accepts return code 0 only, so the
  result is dropped (and the method as a whole returns nothing for any return code, since
  building the \<open>CompletedProcess\<close> raises). The stand-alone \<open>_run_semgrep\<close> keeps the
  result. In the other direction, \<open>_run_ruff_analysis\<close> in \<open>src/quality_agent.py\<close> never
  looks at the return code and parses the output of a run that exited with code 2, which
  the stand-alone \<open>_run_ruff\<close> reports as a failure.
\<close>

theorem semgrep_exit_code_one_dropped:
  "parse_semgrep_output (Parsed semgrep_info_output) \<noteq> []
   \<and> semgrep_result 1 (Parsed semgrep_info_output) = []
   \<and> run_semgrep default_security_config (Exited 1 (Parsed semgrep_info_output) []) = []
   \<and> run_semgrep default_security_config (Exited 0 (Parsed semgrep_info_output) []) = []
   \<and> sa_run_semgrep (Exited 1 NoOutput []) (Some (Parsed semgrep_info_output))
      = Success (JArr semgrep_info_runs) 1
   \<and> map line_number (run_ruff_analysis (Exited 2 (Parsed ruff_unlocated) ''usage error''))
      = [JInt 0]
   \<and> run_ruff (Exited 2 NoOutput ''usage error'') (Some (Parsed ruff_unlocated))
      = Failure ''usage error''"
  by (simp add: parse_semgrep_output_def semgrep_info_parsed semgrep_result_def run_semgrep_def
        default_security_config_def completed_process_cmd_def sa_semgrep_kept
        run_ruff_analysis_def ruff_unlocated_parsed run_ruff_def)

subsection \<open>A scope without eligible files\<close>

lemma q_zero_files_reply:
  assumes "working st" and "\<not> in_cooldown st (t_gate (q_clock env))"
    and "filter_quality_files (q_fs env)
           ((q_update_config (q_config st) (config td))\<lparr>analysis_mode := override ''standard'' (mode td)\<rparr>)
           (override [] (scope td)) = []"
  shows "\<exists>st'. q_handle_task env st tid td = (Returned (), st')
           \<and> outbox st' = outbox st
                @ [fill_agent st (task_response st tid ''done''
                     (no_files_results (override [] (output_file td))) (Some 0))]"
proof -
  let ?st1 = "st\<lparr>q_config := (q_update_config (q_config st) (config td))
                                 \<lparr>analysis_mode := override ''standard'' (mode td)\<rparr>\<rparr>"
  let ?res = "no_files_results (override [] (output_file td))"
  have w: "working ?st1" using assms(1) by (simp add: working_def)
  from working_send_task_response [OF w, of tid "''done''" ?res "Some 0"]
  obtain st2 where s: "send_task_response ?st1 tid ''done'' ?res (Some 0) = (Returned True, st2)"
    "outbox st2 = outbox ?st1 @ [fill_agent ?st1 (task_response ?st1 tid ''done'' ?res (Some 0))]"
    by blast
  have "q_handle_task env st tid td = (Returned (), st2)"
    using assms(2,3) s(1) by (simp add: q_handle_task_def q_analyse_def Let_def)
  moreover have "outbox st2 = outbox st @ [fill_agent st (task_response st tid ''done'' ?res (Some 0))]"
    using s(2) by (simp add: outbox_def fill_agent_def task_response_def)
  ultimately show ?thesis by blast
qed

lemma no_files_fields:
  "reply_field ''status'' (fill_agent st (task_response st tid ''done'' (no_files_results out) d))
     = JStr ''done''"
  "result_field ''findings_count'' (fill_agent st (task_response st tid ''done'' (no_files_results out) d))
     = JInt 0"
  "result_field ''tools_used'' (fill_agent st (task_response st tid ''done'' (no_files_results out) d))
     = JArr []"
  by (simp_all add: reply_field_def result_field_def fill_agent_def task_response_def dict_get_def
        no_files_results_def)

lemma s_zero_files_fresh_reply:
  assumes "working st" and "\<not> in_cooldown st (t_gate (s_clock env))"
    and "filter_security_files (s_fs env) (override [] (scope td)) = []"
    and "s_findings st = []"
  shows "\<exists>st' res. s_handle_task env st tid td = (Returned (), st')
           \<and> outbox st' = outbox st
                @ [fill_agent st (task_response st tid ''done'' (JObj res)
                                    (Some (duration_ms (s_clock env))))]
           \<and> map_of res ''findings_count'' = Some (JInt 0)
           \<and> map_of res ''tools_used'' = Some (JArr [])"
proof -
  let ?st1 = "st\<lparr>s_config := s_update_config (s_config st) (config td)\<rparr>"
  let ?r0 = "\<lparr> sr_findings = [], sr_tools_used = [], sr_scan_time = 0, sr_files_scanned = 0 \<rparr>"
  have run: "run_security_analysis env ?st1 (override [] (scope td)) = (?r0, ?st1)"
    using assms(3) by (simp add: run_security_analysis_def Let_def)
  obtain res where res: "s_done_results env [] ?r0 (override [] (output_file td)) = Returned (JObj res)"
    "map_of res ''findings_count'' = Some (JInt 0)" "map_of res ''tools_used'' = Some (JArr [])"
    by (simp add: s_done_results_def s_generate_summary_def)
  have w: "working ?st1" using assms(1) by (simp add: working_def)
  from working_send_task_response [OF w, of tid "''done''" "JObj res" "Some (duration_ms (s_clock env))"]
  obtain st2 where s: "send_task_response ?st1 tid ''done'' (JObj res) (Some (duration_ms (s_clock env)))
                         = (Returned True, st2)"
    "outbox st2 = outbox ?st1 @ [fill_agent ?st1 (task_response ?st1 tid ''done'' (JObj res)
                                                    (Some (duration_ms (s_clock env))))]"
    by blast
  have "s_handle_task env st tid td
          = (Returned (), st2\<lparr>consecutive_errors := 0, last_successful_run := t_success (s_clock env)\<rparr>)"
    using assms(2,4) run res(1) s(1)
    by (simp add: s_handle_task_def s_analyse_def Let_def)
  moreover have "outbox (st2\<lparr>consecutive_errors := 0, last_successful_run := t_success (s_clock env)\<rparr>)
      = outbox st @ [fill_agent st (task_response st tid ''done'' (JObj res)
                                      (Some (duration_ms (s_clock env))))]"
    using s(2) by (simp add: outbox_def fill_agent_def task_response_def)
  ultimately show ?thesis using res(2,3) by blast
qed

lemma sample_security_files: "filter_security_files local_fs [''a.py''] = [''/repo/a.py'']"
  by (simp add: filter_security_files_def local_fs_def absolute_def startswith_def path_join_def
        endswith_def)

lemma no_security_files: "filter_security_files fs [] = []"
  by (simp add: filter_security_files_def)

lemmas security_unfold =
  handle_task_message_def s_handle_task_def s_analyse_def run_security_analysis_def
  s_update_config_def override_def in_cooldown_def time_since_last_success_def store_active_def
  answer_failure_def discard_def s_failed_def send_task_response_def send_message_def
  remove_active_def dict_has_def task_response_def fill_agent_def s_done_results_def
  s_generate_summary_def sarif_result_of_def run_semgrep_def run_gitleaks_def
  quiet_security_env_def steady_clock_def default_security_config_def empty_dict_def
  sample_data_def Let_def AttributeError_def duration_ms_def py_int_def

lemma first_task_state:
  "after_first_task =
     fresh_security_agent
       \<lparr>socket := Some \<lparr>broken = False,
                          sent = [\<lparr> msg_id = ''t1'', msg_type = ''task'', msg_agent = Some ''security'',
                                    msg_data = Some (JObj [(''status'', JStr ''failed''),
                                       (''results'', JObj [(''error'', JStr []),
                                                           (''error_type'', JStr ''AttributeError'')]),
                                       (''duration_ms'', JInt 1000),
                                       (''agent'', JStr ''security'')]) \<rparr>]\<rparr>,
        consecutive_errors := 1,
        s_findings := [Key ''findings'', Key ''tools_used'']\<rparr>"
  by (simp add: after_first_task_def first_task_def fresh_security_agent_def agent_unfold
        security_unfold sample_security_files)

lemma second_task_outbox:
  "outbox after_second_task =
     [\<lparr> msg_id = ''t1'', msg_type = ''task'', msg_agent = Some ''security'',
        msg_data = Some (JObj [(''status'', JStr ''failed''),
           (''results'', JObj [(''error'', JStr []), (''error_type'', JStr ''AttributeError'')]),
           (''duration_ms'', JInt 1000), (''agent'', JStr ''security'')]) \<rparr>,
      \<lparr> msg_id = ''t2'', msg_type = ''task'', msg_agent = Some ''security'',
        msg_data = Some (JObj [(''status'', JStr ''failed''),
           (''results'', JObj [(''error'', JStr []), (''error_type'', JStr ''AttributeError'')]),
           (''duration_ms'', JInt 1000), (''agent'', JStr ''security'')]) \<rparr>]"
  by (simp add: after_second_task_def first_task_state empty_scope_task_def
        fresh_security_agent_def agent_unfold security_unfold no_security_files outbox_def)

text \<open>
  Claim C8 at a failing input. A security agent with the default configuration first gets
  a task whose scope is the existing file \<open>a.py\<close>, then a task whose scope is empty.
  The first task leaves the strings \<open>findings\<close> and \<open>tools_used\<close> in
  \<open>self.findings\<close>. For the second task no file is eligible, \<open>_run_security_analysis\<close>
  returns before it resets \<open>self.findings\<close>, and building the reply from the stale list
  raises: the reply is \<open>failed\<close>, not \<open>done\<close> with a count of zero.
\<close>

theorem empty_scope_after_a_scan_fails:
  "filter_security_files (s_fs (quiet_security_env 10)) [] = []
   \<and> s_findings after_first_task = [Key ''findings'', Key ''tools_used'']
   \<and> s_findings after_second_task = [Key ''findings'', Key ''tools_used'']
   \<and> map (reply_field ''status'') (replies_to after_second_task ''t2'') = [JStr ''failed'']
   \<and> map (result_field ''error_type'') (replies_to after_second_task ''t2'')
      = [JStr ''AttributeError'']
   \<and> map (result_field ''findings_count'') (replies_to after_second_task ''t2'') \<noteq> [JInt 0]"
proof -
  have "s_findings after_second_task = [Key ''findings'', Key ''tools_used'']"
    by (simp add: after_second_task_def first_task_state empty_scope_task_def
        fresh_security_agent_def agent_unfold security_unfold no_security_files)
  then show ?thesis
    by (simp add: no_security_files first_task_state second_task_outbox replies_to_def
          reply_field_def result_field_def dict_get_def)
qed

subsection \<open>Findings of the parsers\<close>

lemma bind_eq_Returned: "bind m k = Returned y \<longleftrightarrow> (\<exists>x. m = Returned x \<and> k x = Returned y)"
  by (cases m) simp_all

lemma for_each_all:
  assumes "\<And>x. \<forall>f \<in> set (fst (body x)). P f"
  shows "\<forall>f \<in> set (fst (for_each body xs)). P f"
proof (induction xs)
  case Nil
  show ?case by simp
next
  case (Cons x xs)
  show ?case
    using assms [of x] Cons.IH
    by (auto split: prod.splits option.splits)
qed

lemma iterate_all:
  assumes "\<And>x. \<forall>f \<in> set (fst (body x)). P f"
  shows "\<forall>f \<in> set (fst (iterate r body)). P f"
  using for_each_all [of body P, OF assms]
  by (auto simp: iterate_def split: result.splits)

lemma one_all:
  assumes "\<And>f. r = Returned f \<Longrightarrow> P f"
  shows "\<forall>f \<in> set (fst (one r)). P f"
  using assms by (auto simp: one_def split: result.splits)

lemma ruff_finding_severity: "ruff_finding item = Returned f \<Longrightarrow> normalized (severity f)"
  unfolding ruff_finding_def
  by (auto simp: bind_eq_Returned map_ruff_severity_def normalized_def)

lemma ruff_finding_lines:
  "ruff_finding item = Returned f \<Longrightarrow>
     bind (py_get item ''location'' (JObj [])) (\<lambda>loc. py_get loc ''row'' (JInt 0))
       = Returned (line_number f)
     \<and> bind (py_get item ''end_location'' (JObj [])) (\<lambda>loc. py_get loc ''row'' JNull)
       = Returned (end_line_number f)"
  unfolding ruff_finding_def
  by (auto simp: bind_eq_Returned)

lemma eslint_finding_severity: "eslint_finding fr m = Returned f \<Longrightarrow> normalized (severity f)"
  unfolding eslint_finding_def
  by (auto simp: bind_eq_Returned map_eslint_severity_def normalized_def)

lemma complexity_findings_severity:
  "\<forall>f \<in> set (fst (complexity_findings py_str th fi fn)). normalized (severity f)"
  unfolding complexity_findings_def
  by (auto simp: bind_eq_Returned one_def map_complexity_severity_def normalized_def
           split: result.splits option.splits)

lemma parse_ruff_severity: "\<forall>f \<in> set (fst (parse_ruff x)). normalized (severity f)"
  unfolding parse_ruff_def
  by (rule iterate_all) (rule one_all, rule ruff_finding_severity)

lemma parse_eslint_severity: "\<forall>f \<in> set (fst (parse_eslint x)). normalized (severity f)"
  unfolding parse_eslint_def
  by (rule iterate_all, rule iterate_all) (rule one_all, rule eslint_finding_severity)

lemma parse_lizard_severity: "\<forall>f \<in> set (fst (parse_lizard py_str th x)). normalized (severity f)"
  unfolding parse_lizard_def
  by (rule iterate_all, rule iterate_all) (rule complexity_findings_severity)

lemma dict_get_str_in: "dict_get_str d k dflt \<in> insert dflt (snd ` set d)"
  by (auto simp: dict_get_str_def split: option.splits dest!: map_of_SomeD intro: rev_image_eqI)

lemma convert_semgrep_severity_range:
  "convert_semgrep_severity x = Returned s \<Longrightarrow> normalized s"
proof (cases x)
  case (JStr t)
  assume "convert_semgrep_severity x = Returned s"
  with JStr have "s = dict_get_str [(''ERROR'', ''error''), (''WARNING'', ''warning''), (''INFO'', ''info'')]
                        (upper t) ''info''"
    by (simp add: convert_semgrep_severity_def)
  with dict_get_str_in [of "[(''ERROR'', ''error''), (''WARNING'', ''warning''), (''INFO'', ''info'')]"
                           "upper t" "''info''"]
  show ?thesis by (simp add: normalized_def) blast
qed (simp_all add: convert_semgrep_severity_def)

lemma convert_npm_severity_range: "convert_npm_severity x = Returned s \<Longrightarrow> normalized s"
proof (cases x)
  case (JStr t)
  assume "convert_npm_severity x = Returned s"
  with JStr have "s = dict_get_str [(''critical'', ''error''), (''high'', ''error''),
                                  (''moderate'', ''warning''), (''low'', ''info''), (''info'', ''info'')]
                        t ''warning''"
    by (simp add: convert_npm_severity_def)
  with dict_get_str_in [of "[(''critical'', ''error''), (''high'', ''error''),
                                  (''moderate'', ''warning''), (''low'', ''info''), (''info'', ''info'')]"
                           t "''warning''"]
  show ?thesis by (simp add: normalized_def) blast
qed (auto simp: convert_npm_severity_def normalized_def)

lemma convert_pip_severity_range: "convert_pip_severity x = Returned s \<Longrightarrow> normalized s"
proof (cases x)
  case (JStr t)
  assume "convert_pip_severity x = Returned s"
  with JStr have "s = dict_get_str [(''critical'', ''error''), (''high'', ''error''),
                                  (''medium'', ''warning''), (''low'', ''info'')]
                        t ''warning''"
    by (simp add: convert_pip_severity_def)
  with dict_get_str_in [of "[(''critical'', ''error''), (''high'', ''error''),
                                  (''medium'', ''warning''), (''low'', ''info'')]"
                           t "''warning''"]
  show ?thesis by (simp add: normalized_def) blast
qed (auto simp: convert_pip_severity_def normalized_def)

lemma convert_osv_severity_range: "convert_osv_severity x = Returned s \<Longrightarrow> normalized s"
proof (cases x)
  case (JStr t)
  assume "convert_osv_severity x = Returned s"
  with JStr have "s = dict_get_str [(''CRITICAL'', ''error''), (''HIGH'', ''error''),
                                  (''MEDIUM'', ''warning''), (''LOW'', ''info'')]
                        (upper t) ''warning''"
    by (simp add: convert_osv_severity_def)
  with dict_get_str_in [of "[(''CRITICAL'', ''error''), (''HIGH'', ''error''),
                                  (''MEDIUM'', ''warning''), (''LOW'', ''info'')]"
                           "upper t" "''warning''"]
  show ?thesis by (simp add: normalized_def) blast
qed (simp_all add: convert_osv_severity_def)

lemma semgrep_finding_severity: "semgrep_finding r = Returned f \<Longrightarrow> normalized (sf_severity f)"
  unfolding semgrep_finding_def
  by (auto simp: bind_eq_Returned dest: convert_semgrep_severity_range)

lemma semgrep_finding_line:
  "semgrep_finding r = Returned f \<Longrightarrow>
     bind (py_get r ''start'' (JObj [])) (\<lambda>start. py_get start ''line'' (JInt 0))
       = Returned (sf_line_number f)"
  unfolding semgrep_finding_def
  by (auto simp: bind_eq_Returned)

lemma gitleaks_finding_severity: "gitleaks_finding x = Returned f \<Longrightarrow> normalized (sf_severity f)"
  unfolding gitleaks_finding_def
  by (auto simp: bind_eq_Returned normalized_def)

lemma npm_finding_facts:
  "npm_finding py_str a p = Returned f \<Longrightarrow> normalized (sf_severity f) \<and> sf_line_number f = JInt 0"
  unfolding npm_finding_def
  by (auto simp: bind_eq_Returned dest: convert_npm_severity_range)

lemma pip_finding_facts:
  "pip_finding py_str v = Returned f \<Longrightarrow> normalized (sf_severity f) \<and> sf_line_number f = JInt 0"
  unfolding pip_finding_def
  by (auto simp: bind_eq_Returned dest: convert_pip_severity_range)

lemma osv_finding_facts:
  "osv_finding py_str v p = Returned f \<Longrightarrow> normalized (sf_severity f) \<and> sf_line_number f = JInt 0"
  unfolding osv_finding_def
  by (auto simp: bind_eq_Returned dest: convert_osv_severity_range)

lemma parse_semgrep_severity: "\<forall>f \<in> set (parse_semgrep_output out). normalized (sf_severity f)"
proof (cases out)
  case (Parsed data)
  have "\<forall>f \<in> set (fst (parse_semgrep_json data)). normalized (sf_severity f)"
    unfolding parse_semgrep_json_def
    by (rule iterate_all, rule iterate_all) (rule one_all, rule semgrep_finding_severity)
  then show ?thesis using Parsed by (simp add: parse_semgrep_output_def)
qed (simp_all add: parse_semgrep_output_def)

lemma parse_gitleaks_severity: "\<forall>f \<in> set (parse_gitleaks_output rep). normalized (sf_severity f)"
proof -
  have "\<forall>f \<in> set (fst (iterate (py_get data ''findings'' (JArr []))
                              (\<lambda>finding. one (gitleaks_finding finding)))). normalized (sf_severity f)"
    for data
    by (rule iterate_all) (rule one_all, rule gitleaks_finding_severity)
  then show ?thesis
    by (auto simp: parse_gitleaks_output_def split: option.splits tool_output.splits)
qed

lemma parse_npm_facts:
  "\<forall>f \<in> set (parse_npm_audit_output py_str out). normalized (sf_severity f) \<and> sf_line_number f = JInt 0"
proof (cases out)
  case (Parsed data)
  have "\<forall>f \<in> set (fst (iterate (py_get data ''vulnerabilities'' (JArr [])) (\<lambda>advisory.
                 iterate (py_get advisory ''affectedPackages'' (JArr [])) (\<lambda>affected_package.
                   one (npm_finding py_str advisory affected_package))))).
          normalized (sf_severity f) \<and> sf_line_number f = JInt 0"
    by (rule iterate_all, rule iterate_all) (rule one_all, rule npm_finding_facts)
  then show ?thesis using Parsed by (simp add: parse_npm_audit_output_def)
qed (simp_all add: parse_npm_audit_output_def)

lemma parse_pip_facts:
  "\<forall>f \<in> set (parse_pip_audit_output py_str out). normalized (sf_severity f) \<and> sf_line_number f = JInt 0"
proof (cases out)
  case (Parsed data)
  have "\<forall>f \<in> set (fst (iterate (py_get data ''vulnerabilities'' (JArr []))
                              (\<lambda>vuln. one (pip_finding py_str vuln)))).
          normalized (sf_severity f) \<and> sf_line_number f = JInt 0"
    by (rule iterate_all) (rule one_all, rule pip_finding_facts)
  then show ?thesis using Parsed by (simp add: parse_pip_audit_output_def)
qed (simp_all add: parse_pip_audit_output_def)

lemma parse_osv_facts:
  "\<forall>f \<in> set (parse_osv_scanner_output py_str rep). normalized (sf_severity f) \<and> sf_line_number f = JInt 0"
proof -
  have "\<forall>f \<in> set (fst (iterate (py_get data ''results'' (JArr [])) (\<lambda>vuln.
                 iterate (py_get vuln ''packages'' (JArr [])) (\<lambda>package.
                   one (osv_finding py_str vuln package))))).
          normalized (sf_severity f) \<and> sf_line_number f = JInt 0" for data
    by (rule iterate_all, rule iterate_all) (rule one_all, rule osv_finding_facts)
  then show ?thesis
    by (auto simp: parse_osv_scanner_output_def split: option.splits tool_output.splits)
qed

lemma parse_poetry_facts:
  "\<forall>f \<in> set (parse_poetry_audit_output text). normalized (sf_severity f) \<and> sf_line_number f = JInt 0"
  by (auto simp: parse_poetry_audit_output_def normalized_def)

lemma ruff_finding_unlocated:
  "ruff_finding (JObj d) = Returned f \<Longrightarrow> map_of d ''location'' = None \<Longrightarrow> line_number f = JInt 0"
  by (drule ruff_finding_lines) (simp add: py_get_def dict_get_def)

lemma semgrep_finding_unlocated:
  "semgrep_finding (JObj d) = Returned f \<Longrightarrow> map_of d ''start'' = None \<Longrightarrow> sf_line_number f = JInt 0"
  by (drule semgrep_finding_line) (simp add: py_get_def dict_get_def)

lemma ruff_backwards_parsed:
  "map (\<lambda>f. (line_number f, end_line_number f)) (fst (parse_ruff ruff_backwards))
     = [(JInt 5, JInt 3)]"
  by (simp add: parse_ruff_def ruff_backwards_def iterate_def py_iter_def one_def ruff_finding_def
        py_get_def dict_get_def map_ruff_severity_def get_ruff_category_def startswith_def truthy_def)

lemma semgrep_unlocated_parsed:
  "map sf_line_number (parse_semgrep_output semgrep_unlocated) = [JInt 0]"
  by (simp add: parse_semgrep_output_def parse_semgrep_json_def semgrep_unlocated_def iterate_def
        py_get_def py_iter_def dict_get_def one_def semgrep_finding_def
        convert_semgrep_severity_def dict_get_str_def upper_INFO)

text \<open>
  Claim C6, as the code has it. Every parser gives each of its findings a severity among
  \<open>error\<close>, \<open>warning\<close> and \<open>info\<close>. The lines are not checked: a Ruff finding takes
  its start line from \<open>location.row\<close> and its end line from \<open>end_location.row\<close>, a
  Semgrep finding its line from \<open>start.line\<close>, each as the tool wrote it; a record
  without a location gets line 0; and findings of npm audit, pip-audit, OSV-Scanner and
  poetry always have line 0.
\<close>

theorem parsers_normalize_severity_not_lines:
  "(\<forall>f \<in> set (fst (parse_ruff ruff_results)). normalized (severity f))
   \<and> (\<forall>f \<in> set (fst (parse_eslint eslint_results)). normalized (severity f))
   \<and> (\<forall>f \<in> set (fst (parse_lizard py_str threshold lizard_data)). normalized (severity f))
   \<and> (\<forall>f \<in> set (parse_semgrep_output out). normalized (sf_severity f))
   \<and> (\<forall>f \<in> set (parse_gitleaks_output report). normalized (sf_severity f))
   \<and> (\<forall>f \<in> set (parse_npm_audit_output py_str out).
          normalized (sf_severity f) \<and> sf_line_number f = JInt 0)
   \<and> (\<forall>f \<in> set (parse_pip_audit_output py_str out).
          normalized (sf_severity f) \<and> sf_line_number f = JInt 0)
   \<and> (\<forall>f \<in> set (parse_osv_scanner_output py_str report).
          normalized (sf_severity f) \<and> sf_line_number f = JInt 0)
   \<and> (\<forall>f \<in> set (parse_poetry_audit_output listing).
          normalized (sf_severity f) \<and> sf_line_number f = JInt 0)
   \<and> (ruff_finding item = Returned qf \<longrightarrow>
          bind (py_get item ''location'' (JObj [])) (\<lambda>loc. py_get loc ''row'' (JInt 0))
            = Returned (line_number qf)
          \<and> bind (py_get item ''end_location'' (JObj [])) (\<lambda>loc. py_get loc ''row'' JNull)
            = Returned (end_line_number qf))
   \<and> (semgrep_finding r = Returned sf \<longrightarrow>
          bind (py_get r ''start'' (JObj [])) (\<lambda>start. py_get start ''line'' (JInt 0))
            = Returned (sf_line_number sf))
   \<and> (ruff_finding (JObj d) = Returned qf' \<and> map_of d ''location'' = None
          \<longrightarrow> line_number qf' = JInt 0)
   \<and> (semgrep_finding (JObj d') = Returned sf' \<and> map_of d' ''start'' = None
          \<longrightarrow> sf_line_number sf' = JInt 0)"
  using parse_ruff_severity [of ruff_results] parse_eslint_severity [of eslint_results]
    parse_lizard_severity [of py_str threshold lizard_data]
    parse_semgrep_severity [of out] parse_gitleaks_severity [of report]
    parse_npm_facts [of py_str out] parse_pip_facts [of py_str out]
    parse_osv_facts [of py_str report] parse_poetry_facts [of listing]
    ruff_finding_lines [of item qf] semgrep_finding_line [of r sf]
    ruff_finding_unlocated [of d qf'] semgrep_finding_unlocated [of d' sf']
  by blast

theorem parsers_normalize_severity_not_lines_witness:
  "map severity (fst (parse_ruff ruff_unlocated)) = [''error'']
   \<and> normalized (severity (hd (fst (parse_ruff ruff_unlocated))))
   \<and> map sf_severity (parse_semgrep_output (Parsed semgrep_info_output)) = [''info'']
   \<and> normalized (sf_severity (hd (parse_semgrep_output (Parsed semgrep_info_output))))
   \<and> map_of [(''code'', JStr ''F401''), (''message'', JStr ''unused import''),
              (''filename'', JStr ''a.py'')] ''location'' = None
   \<and> (case ruff_finding (JObj [(''code'', JStr ''F401''), (''message'', JStr ''unused import''),
                                (''filename'', JStr ''a.py'')]) of
          Returned f \<Rightarrow> line_number f = JInt 0 | Raised e \<Rightarrow> False)
   \<and> map_of [(''rule_id'', JStr ''rules.eval''), (''message'', JStr ''eval used''),
              (''path'', JStr ''a.py'')] ''start'' = None
   \<and> (case semgrep_finding (JObj [(''rule_id'', JStr ''rules.eval''),
                                   (''message'', JStr ''eval used''), (''path'', JStr ''a.py'')]) of
          Returned f \<Rightarrow> sf_line_number f = JInt 0 | Raised e \<Rightarrow> False)"
proof -
  let ?d = "[(''code'', JStr ''F401''), (''message'', JStr ''unused import''),
             (''filename'', JStr ''a.py'')]"
  let ?d' = "[(''rule_id'', JStr ''rules.eval''), (''message'', JStr ''eval used''),
              (''path'', JStr ''a.py'')]"
  have q: "hd (fst (parse_ruff ruff_unlocated)) \<in> set (fst (parse_ruff ruff_unlocated))"
    by (simp add: ruff_unlocated_parsed)
  have s: "hd (parse_semgrep_output (Parsed semgrep_info_output))
             \<in> set (parse_semgrep_output (Parsed semgrep_info_output))"
    by (simp add: parse_semgrep_output_def semgrep_info_parsed)
  obtain f where f: "ruff_finding (JObj ?d) = Returned f"
    by (simp add: ruff_finding_def py_get_def dict_get_def get_ruff_category_def startswith_def
          truthy_def)
  obtain g where g: "semgrep_finding (JObj ?d') = Returned g"
    by (simp add: semgrep_finding_def py_get_def dict_get_def convert_semgrep_severity_def)
  have nl: "map_of ?d ''location'' = None" by simp
  have ns: "map_of ?d' ''start'' = None" by simp
  note a = parsers_normalize_severity_not_lines
             [where ruff_results = ruff_unlocated, THEN conjunct1]
  note b = parsers_normalize_severity_not_lines
             [where out = "Parsed semgrep_info_output",
              THEN conjunct2, THEN conjunct2, THEN conjunct2, THEN conjunct1]
  note c = parsers_normalize_severity_not_lines
             [where d = ?d and qf' = f, THEN conjunct2, THEN conjunct2, THEN conjunct2, THEN conjunct2, THEN conjunct2, THEN conjunct2, THEN conjunct2, THEN conjunct2, THEN conjunct2, THEN conjunct2, THEN conjunct2, THEN conjunct1, THEN mp]
  note d = parsers_normalize_severity_not_lines
             [where d' = ?d' and sf' = g, THEN conjunct2, THEN conjunct2, THEN conjunct2, THEN conjunct2, THEN conjunct2, THEN conjunct2, THEN conjunct2, THEN conjunct2, THEN conjunct2, THEN conjunct2, THEN conjunct2, THEN conjunct2, THEN mp]
  from a q have "normalized (severity (hd (fst (parse_ruff ruff_unlocated))))"
    by (rule bspec)
  moreover from b s
  have "normalized (sf_severity (hd (parse_semgrep_output (Parsed semgrep_info_output))))"
    by (rule bspec)
  moreover from f nl have "line_number f = JInt 0" by (intro c conjI)
  moreover from g ns have "sf_line_number g = JInt 0" by (intro d conjI)
  ultimately show ?thesis
    using f g
    by (simp add: ruff_unlocated_parsed parse_semgrep_output_def semgrep_info_parsed)
qed

theorem unlocated_record_counterexample:
  "map line_number (fst (parse_ruff ruff_unlocated)) = [JInt 0]
   \<and> map (\<lambda>f. (line_number f, end_line_number f)) (fst (parse_ruff ruff_backwards))
       = [(JInt 5, JInt 3)]
   \<and> map sf_line_number (parse_semgrep_output semgrep_unlocated) = [JInt 0]"
  by (simp add: ruff_unlocated_parsed ruff_backwards_parsed semgrep_unlocated_parsed)
end
